theory Spec2Isabelle
  imports Main "HOL-Library.Word"
begin

section \<open>JavaScript strings\<close>

text \<open>
  A JavaScript string is a sequence of UTF-16 code units and \<^verbatim>\<open>s.length\<close> counts
  code units, so a string is a list of 16-bit words and its length is the list's length.
  \<open>js\<close> embeds an ASCII literal of the source.
\<close>

type_synonym code_unit = "16 word"
type_synonym js_string = "code_unit list"

definition js :: "string \<Rightarrow> js_string" where
  "js s = map of_char s"

text \<open>
  \<^verbatim>\<open>String.prototype.trim\<close> strips the code units of the productions WhiteSpace and
  LineTerminator of ECMA-262 from both ends: TAB, LF, VT, FF, CR, SP, NBSP, the
  space separators of Unicode (all in the basic plane), LS, PS and the byte-order mark.
\<close>

definition is_js_whitespace :: "code_unit \<Rightarrow> bool" where
  "is_js_whitespace c = (c \<in> set [0x9, 0xA, 0xB, 0xC, 0xD, 0x20, 0xA0, 0x1680,
      0x2000, 0x2001, 0x2002, 0x2003, 0x2004, 0x2005, 0x2006, 0x2007, 0x2008, 0x2009,
      0x200A, 0x2028, 0x2029, 0x202F, 0x205F, 0x3000, 0xFEFF])"

definition trim :: "js_string \<Rightarrow> js_string" where
  "trim s = rev (dropWhile is_js_whitespace (rev (dropWhile is_js_whitespace s)))"

text \<open>The decimal digits of a number, as a template literal prints a non-negative integer.\<close>

fun decimal :: "nat \<Rightarrow> js_string" where
  "decimal n = (if n < 10 then [of_nat (48 + n)]
                else decimal (n div 10) @ [of_nat (48 + n mod 10)])"

declare decimal.simps [simp del]

section \<open>config.js\<close>

definition API_BASE_URL :: js_string where
  "API_BASE_URL = js ''http://localhost:8000''"

definition REQUEST_TIMEOUT :: nat where
  "REQUEST_TIMEOUT = 600000"

record sample =
  sample_title :: js_string
  sample_text :: js_string

definition SAMPLES :: "js_string \<Rightarrow> sample option" where
  "SAMPLES type =
     (if type = js ''FAKE'' then Some \<lparr>
        sample_title = js ''BREAKING: Scientists Discover Miracle Cure That Doctors Don't Want You to Know'',
        sample_text = js ''Amazing breakthrough that medical establishment is trying to hide from the public. Anonymous sources reveal shocking truth about secret treatment. Government officials refuse to comment. Share this before they delete it! Mainstream media won't report this incredible discovery.'' \<rparr>
      else if type = js ''REAL'' then Some \<lparr>
        sample_title = js ''London's Canary Wharf Docklands Light Railway station reopens after fire alert'',
        sample_text = js ''Transport for London confirmed that Canary Wharf DLR station has reopened following a brief closure due to a fire alert earlier today. The station was evacuated as a precautionary measure while fire services investigated. No injuries were reported and normal service has now resumed.'' \<rparr>
      else None)"

definition LOADING_MESSAGES :: "js_string list" where
  "LOADING_MESSAGES =
     [js ''Running AI model prediction...'',
      js ''Analyzing text patterns...'',
      js ''Generating word importance scores...'',
      js ''Creating human-readable explanation...'']"

section \<open>The backend's JSON payloads\<close>

text \<open>
  The client reads the parsed body without validating it, so a payload is modelled as the
  code meets it: either JSON \<^verbatim>\<open>null\<close> (\<open>None\<close>) or an object in which every property the
  code reads may be missing (\<open>None\<close> is \<^verbatim>\<open>undefined\<close>) and has the type of the backend
  contract when present. A number is kept as the decimal literal of the JSON text
  (mantissa and exponent); the client only formats numbers for display.
\<close>

datatype js_number = Decimal int int

datatype direction = DirFake | DirReal

definition direction_string :: "direction \<Rightarrow> js_string" where
  "direction_string d = (case d of DirFake \<Rightarrow> js ''fake'' | DirReal \<Rightarrow> js ''real'')"

record word_highlight =
  word :: js_string
  importance :: js_number
  direction :: direction

record json_object =
  error :: "js_string option"
  prediction :: "js_string option"
  confidence :: "js_number option"
  fake_probability :: "js_number option"
  real_probability :: "js_number option"
  explanation :: "js_string option"
  word_highlights :: "word_highlight list option"
  processing_time_ms :: "js_number option"
  request_id :: "js_string option"
  timestamp :: "js_string option"

type_synonym json_value = "json_object option"

section \<open>api.js: the transport\<close>

record js_error =
  name :: js_string
  message :: js_string

definition new_Error :: "js_string \<Rightarrow> js_error" where
  "new_Error msg = \<lparr>name = js ''Error'', message = msg\<rparr>"

text \<open>
  Reading a property of \<^verbatim>\<open>null\<close> or \<^verbatim>\<open>undefined\<close> throws a TypeError. The wording of
  its message belongs to the engine; V8's is used.
\<close>

definition null_read :: "js_string \<Rightarrow> js_error" where
  "null_read prop = \<lparr>name = js ''TypeError'',
     message = js ''Cannot read properties of null (reading '' @ [0x27] @ prop @ [0x27, 0x29]\<rparr>"

definition undefined_read :: "js_string \<Rightarrow> js_error" where
  "undefined_read prop = \<lparr>name = js ''TypeError'',
     message = js ''Cannot read properties of undefined (reading '' @ [0x27] @ prop @ [0x27, 0x29]\<rparr>"

text \<open>
  The rejection of a fetch whose signal was aborted: a DOMException named AbortError
  (its message too is the browser's).
\<close>

definition AbortError :: js_error where
  "AbortError = \<lparr>name = js ''AbortError'', message = js ''signal is aborted without reason''\<rparr>"

text \<open>
  A promise that settles is fulfilled with a value or rejected with an error. A response
  carries its status and what \<^verbatim>\<open>response.json()\<close> will do: settle, or never settle
  (\<open>None\<close>) when the body stalls. \<^verbatim>\<open>response.ok\<close> is true for the statuses 200 to 299.
\<close>

datatype 'a settlement = Fulfilled 'a | Rejected js_error

record response =
  status :: nat
  json :: "json_value settlement option"

definition ok :: "response \<Rightarrow> bool" where
  "ok r = (200 \<le> status r \<and> status r \<le> 299)"

text \<open>
  What the network does with one request, were it never aborted: the response (its
  headers) arrives after so many milliseconds, the request fails after so many
  milliseconds, or nothing ever comes back.
\<close>

datatype network = Responds nat response | Fails nat js_error | Silent

definition arrives_within :: "nat \<Rightarrow> network \<Rightarrow> bool" where
  "arrives_within timeout net =
     (case net of Responds t r \<Rightarrow> t \<le> timeout | Fails t e \<Rightarrow> t \<le> timeout | Silent \<Rightarrow> False)"

record TruthLensAPI =
  baseURL :: js_string
  timeout :: nat

definition api :: TruthLensAPI where
  "api = \<lparr>baseURL = API_BASE_URL, timeout = REQUEST_TIMEOUT\<rparr>"

text \<open>
  \<^verbatim>\<open>await fetch(url, {signal: controller.signal, ...})\<close> under the timer
  \<^verbatim>\<open>setTimeout(() => controller.abort(), this.timeout)\<close>: the fetch settles as the network
  does when that happens by the deadline; otherwise the timer fires first, the controller
  aborts and the fetch rejects with the AbortError. The timer is the transport's own: it
  is not listed among the timers of the page below.
\<close>

definition fetch :: "nat \<Rightarrow> network \<Rightarrow> response settlement" where
  "fetch deadline net =
     (case net of
        Responds t r \<Rightarrow> if t \<le> deadline then Fulfilled r else Rejected AbortError
      | Fails t e \<Rightarrow> if t \<le> deadline then Rejected e else Rejected AbortError
      | Silent \<Rightarrow> Rejected AbortError)"

text \<open>The \<^verbatim>\<open>catch\<close> block of makeRequest: it rethrows, renaming an abort to a timeout.\<close>

definition makeRequest_catch :: "js_error \<Rightarrow> json_value settlement" where
  "makeRequest_catch e =
     (if name e = js ''AbortError''
      then Rejected (new_Error (js ''Request timed out. The analysis is taking longer than expected.''))
      else Rejected e)"

definition http_error_message :: "nat \<Rightarrow> js_string" where
  "http_error_message code = js ''HTTP error! status: '' @ decimal code"

text \<open>
  makeRequest. The timer is cleared as soon as the fetch settles, so reading the body is
  not bounded by it: when \<^verbatim>\<open>response.json()\<close> never settles, neither does makeRequest
  (\<open>None\<close>). \<^verbatim>\<open>errorData.error || `HTTP error! ...`\<close> takes the fallback when the property is
  missing or is the empty string; reading it from \<^verbatim>\<open>null\<close> throws.
\<close>

definition makeRequest :: "TruthLensAPI \<Rightarrow> network \<Rightarrow> json_value settlement option" where
  "makeRequest a net =
     (case fetch (timeout a) net of
        Rejected e \<Rightarrow> Some (makeRequest_catch e)
      | Fulfilled r \<Rightarrow>
          if \<not> ok r then
            (case json r of
               None \<Rightarrow> None
             | Some (Rejected e) \<Rightarrow> Some (makeRequest_catch e)
             | Some (Fulfilled errorData) \<Rightarrow>
                 (case errorData of
                    None \<Rightarrow> Some (makeRequest_catch (null_read (js ''error'')))
                  | Some obj \<Rightarrow>
                      Some (makeRequest_catch (new_Error
                        (case error obj of
                           Some m \<Rightarrow> if m \<noteq> [] then m else http_error_message (status r)
                         | None \<Rightarrow> http_error_message (status r))))))
          else
            (case json r of
               None \<Rightarrow> None
             | Some (Rejected e) \<Rightarrow> Some (makeRequest_catch e)
             | Some (Fulfilled data) \<Rightarrow> Some (Fulfilled data)))"

text \<open>
  detectFakeNews turns the settlement into an outcome. Inside its \<^verbatim>\<open>try\<close>,
  \<^verbatim>\<open>console.log('Prediction:', response.prediction)\<close> reads a property of the parsed body,
  which throws when the body is \<^verbatim>\<open>null\<close>; the \<^verbatim>\<open>catch\<close> makes that a failure too.
\<close>

datatype request_outcome = Success json_value | Failure js_string

definition detectFakeNews :: "TruthLensAPI \<Rightarrow> js_string \<Rightarrow> js_string \<Rightarrow> network \<Rightarrow> request_outcome option" where
  "detectFakeNews a title text net =
     (case makeRequest a net of
        None \<Rightarrow> None
      | Some (Rejected e) \<Rightarrow> Some (Failure (message e))
      | Some (Fulfilled response) \<Rightarrow>
          (case response of
             None \<Rightarrow> Some (Failure (message (null_read (js ''prediction''))))
           | Some obj \<Rightarrow> Some (Success response)))"

section \<open>The page: what ui.js reads and writes\<close>

text \<open>
  The state the two classes of ui.js work on: the fields of the \<^verbatim>\<open>TruthLensUI\<close> and
  \<^verbatim>\<open>TruthLensApp\<close> instances, the parts of the document they touch, the browser's
  table of running timers, and the analysis requests handed to the transport that have
  not settled yet. Text that the code prints from floating-point numbers (percentages,
  seconds, the locale's timestamp), the icon of the badge, scrolling, and console output
  are not part of the state. The elements the code looks up by id are all present.
\<close>

text \<open>
  A timer of the page with the variables its callback closes over: the message rotation
  of showLoading (\<^verbatim>\<open>messageIndex\<close>), the typing effect of updateExplanation (\<^verbatim>\<open>index\<close>
  and \<^verbatim>\<open>text\<close>), and the one-shot delay of updateProbabilityBars.
\<close>

datatype timer =
    MessageInterval nat
  | TypeInterval nat "js_string option"
  | BarTimeout

text \<open>
  A child of \<^verbatim>\<open>#highlightsGrid\<close>: the paragraph "No word highlights available", or a
  \<^verbatim>\<open>div\<close> with its class list, its \<^verbatim>\<open>style.display\<close>, its position in the list
  (which sets the animation delay) and the data item its markup was built from.
\<close>

record highlight_item =
  classList :: "js_string list"
  display :: js_string
  index :: nat
  item :: word_highlight

datatype grid_child = NoHighlights | HighlightItem highlight_item

record analysis_request =
  request_title :: js_string
  request_text :: js_string

record world =
  currentTab :: js_string
  currentResults :: json_value
  loadingInterval :: "nat option"
  isAnalyzing :: bool
  detectionForm_hidden :: bool
  loadingState_hidden :: bool
  resultsSection_hidden :: bool
  errorState_hidden :: bool
  loadingStep :: js_string
  errorMessage :: js_string
  resultBadge :: js_string
  badgeText :: js_string
  explanationText :: js_string
  highlightsGrid :: "grid_child list"
  tab_btn :: "(js_string \<times> bool) list"
  requestId :: js_string
  requestId_title :: js_string
  newsTitle :: js_string
  newsText :: js_string
  charCount :: nat
  charCount_color :: js_string
  timers :: "(nat \<times> timer) list"
  next_timer :: nat
  in_flight :: "analysis_request list"

text \<open>
  \<^verbatim>\<open>setInterval\<close> and \<^verbatim>\<open>setTimeout\<close> draw their handles from one counter of positive
  integers; \<^verbatim>\<open>clearInterval\<close> removes the timer with the handle given.
\<close>

definition setInterval :: "timer \<Rightarrow> world \<Rightarrow> nat \<times> world" where
  "setInterval t w =
     (next_timer w, w\<lparr>timers := timers w @ [(next_timer w, t)], next_timer := Suc (next_timer w)\<rparr>)"

definition setTimeout :: "timer \<Rightarrow> world \<Rightarrow> nat \<times> world" where
  "setTimeout t w = setInterval t w"

definition clearInterval :: "nat \<Rightarrow> world \<Rightarrow> world" where
  "clearInterval h w = w\<lparr>timers := filter (\<lambda>p. fst p \<noteq> h) (timers w)\<rparr>"

section \<open>ui.js: class TruthLensUI\<close>

definition showLoading :: "world \<Rightarrow> world" where
  "showLoading w =
     (let w1 = w\<lparr>detectionForm_hidden := True, resultsSection_hidden := True,
                  errorState_hidden := True, loadingState_hidden := False\<rparr>;
          (messageInterval, w2) = setInterval (MessageInterval 0) w1
      in w2\<lparr>loadingInterval := Some messageInterval\<rparr>)"

text \<open>\<^verbatim>\<open>if (this.loadingInterval)\<close> is false for undefined, null and the number 0.\<close>

definition hideLoading :: "world \<Rightarrow> world" where
  "hideLoading w =
     (case loadingInterval w of
        None \<Rightarrow> w
      | Some h \<Rightarrow> if h \<noteq> 0 then (clearInterval h w)\<lparr>loadingInterval := None\<rparr> else w)"

text \<open>
  The five updates of showResults. Each either throws (\<open>Inl\<close>) before it has written
  anything that is modelled, or returns the page it leaves.
\<close>

definition updateResultHeader :: "json_value \<Rightarrow> world \<Rightarrow> js_error + world" where
  "updateResultHeader data w =
     (case data of
        None \<Rightarrow> Inl (null_read (js ''prediction''))
      | Some d \<Rightarrow>
          (let isFake = (prediction d = Some (js ''Fake''))
           in Inr (w\<lparr>resultBadge := js ''result-badge '' @ (if isFake then js ''fake'' else js ''real''),
                     badgeText := (if isFake then js ''Fake News Detected'' else js ''Likely Credible'')\<rparr>)))"

definition updateProbabilityBars :: "json_value \<Rightarrow> world \<Rightarrow> js_error + world" where
  "updateProbabilityBars data w =
     (case data of
        None \<Rightarrow> Inl (null_read (js ''fake_probability''))
      | Some d \<Rightarrow> Inr (snd (setTimeout BarTimeout w)))"

definition updateExplanation :: "json_value \<Rightarrow> world \<Rightarrow> js_error + world" where
  "updateExplanation data w =
     (case data of
        None \<Rightarrow> Inl (null_read (js ''explanation''))
      | Some d \<Rightarrow> Inr (snd (setInterval (TypeInterval 0 (explanation d)) (w\<lparr>explanationText := []\<rparr>))))"

text \<open>
  One iteration of \<^verbatim>\<open>highlights.forEach((item, index) => ...)\<close>: the new \<^verbatim>\<open>div\<close> of class
  \<^verbatim>\<open>highlight-item <direction>\<close>, shown or hidden by the current tab.
\<close>

definition render_highlight :: "js_string \<Rightarrow> nat \<Rightarrow> word_highlight \<Rightarrow> grid_child" where
  "render_highlight tab i h = HighlightItem \<lparr>
     classList = [js ''highlight-item'', direction_string (direction h)],
     display = (if tab = js ''all'' \<or> tab = direction_string (direction h)
                then js ''flex'' else js ''none''),
     index = i,
     item = h\<rparr>"

definition updateWordHighlights :: "json_value \<Rightarrow> world \<Rightarrow> js_error + world" where
  "updateWordHighlights data w =
     (case data of
        None \<Rightarrow> Inl (null_read (js ''word_highlights''))
      | Some d \<Rightarrow>
          (let highlights = (case word_highlights d of Some hs \<Rightarrow> hs | None \<Rightarrow> [])
           in if length highlights = 0 then Inr (w\<lparr>highlightsGrid := [NoHighlights]\<rparr>)
              else Inr (w\<lparr>highlightsGrid :=
                          map (\<lambda>(i, h). render_highlight (currentTab w) i h)
                              (zip [0..<length highlights] highlights)\<rparr>)))"

definition updateMetadata :: "json_value \<Rightarrow> world \<Rightarrow> js_error + world" where
  "updateMetadata data w =
     (case data of
        None \<Rightarrow> Inl (null_read (js ''processing_time_ms''))
      | Some d \<Rightarrow>
          (case request_id d of
             None \<Rightarrow> Inl (undefined_read (js ''substring''))
           | Some rid \<Rightarrow> Inr (w\<lparr>requestId := take 13 rid @ js ''...'', requestId_title := rid\<rparr>)))"

text \<open>
  Statements in sequence: once one has thrown, the rest do not run and the page stays as
  the last completed statement left it.
\<close>

definition and_then :: "world \<times> js_error option \<Rightarrow> (world \<Rightarrow> js_error + world) \<Rightarrow> world \<times> js_error option" where
  "and_then r f =
     (case r of
        (w, Some e) \<Rightarrow> (w, Some e)
      | (w, None) \<Rightarrow> (case f w of Inl e \<Rightarrow> (w, Some e) | Inr w' \<Rightarrow> (w', None)))"

definition showResults :: "json_value \<Rightarrow> world \<Rightarrow> world \<times> js_error option" where
  "showResults data w =
     (let w1 = hideLoading w;
          w2 = w1\<lparr>currentResults := data\<rparr>;
          w3 = w2\<lparr>detectionForm_hidden := True, loadingState_hidden := True,
                   errorState_hidden := True, resultsSection_hidden := False\<rparr>
      in and_then (and_then (and_then (and_then (and_then (w3, None)
           (updateResultHeader data)) (updateProbabilityBars data)) (updateExplanation data))
           (updateWordHighlights data)) (updateMetadata data))"

text \<open>
  filterHighlights. \<^verbatim>\<open>querySelectorAll('.highlight-item')\<close> selects the items of the grid
  (no other element of the page is given that class), in document order.
\<close>

definition filter_item :: "js_string \<Rightarrow> grid_child \<Rightarrow> grid_child" where
  "filter_item tab c =
     (case c of
        NoHighlights \<Rightarrow> NoHighlights
      | HighlightItem it \<Rightarrow>
          (let dir = (if js ''fake'' \<in> set (classList it) then js ''fake'' else js ''real'')
           in if tab = js ''all'' \<or> tab = dir
              then HighlightItem (it\<lparr>display := js ''flex''\<rparr>)
              else HighlightItem (it\<lparr>display := js ''none''\<rparr>)))"

definition filterHighlights :: "js_string \<Rightarrow> world \<Rightarrow> world" where
  "filterHighlights tab w =
     (let w1 = w\<lparr>currentTab := tab\<rparr>
      in if currentResults w1 = None then w1
         else w1\<lparr>highlightsGrid := map (filter_item tab) (highlightsGrid w1),
                 tab_btn := map (\<lambda>(t, active). (t, t = tab)) (tab_btn w1)\<rparr>)"

definition showError :: "js_string \<Rightarrow> world \<Rightarrow> world" where
  "showError msg w =
     (let w1 = hideLoading w
      in w1\<lparr>detectionForm_hidden := True, loadingState_hidden := True,
            resultsSection_hidden := True, errorState_hidden := False,
            errorMessage := msg\<rparr>)"

definition resetToForm :: "world \<Rightarrow> world" where
  "resetToForm w =
     (let w1 = hideLoading w
      in w1\<lparr>detectionForm_hidden := False, loadingState_hidden := True,
            resultsSection_hidden := True, errorState_hidden := True,
            newsTitle := [], newsText := [], charCount := 0\<rparr>)"

definition updateCharCount :: "world \<Rightarrow> world" where
  "updateCharCount w =
     (let n = length (newsText w)
      in w\<lparr>charCount := n,
           charCount_color :=
             (if n > 10000 then js ''var(--fake-red)''
              else if n > 8000 then js ''var(--text-secondary)''
              else js ''var(--text-tertiary)'')\<rparr>)"

definition fillSample :: "js_string \<Rightarrow> world \<Rightarrow> world" where
  "fillSample type w =
     (case SAMPLES type of
        None \<Rightarrow> w
      | Some s \<Rightarrow> updateCharCount (w\<lparr>newsTitle := sample_title s, newsText := sample_text s\<rparr>))"

section \<open>ui.js: class TruthLensApp\<close>

definition validateInputs :: "js_string \<Rightarrow> js_string \<Rightarrow> world \<Rightarrow> bool \<times> world" where
  "validateInputs title text w =
     (if length title < 5 then
        (False, showError (js ''Title must be at least 5 characters long'') w)
      else if length title > 500 then
        (False, showError (js ''Title must be less than 500 characters'') w)
      else if length text < 20 then
        (False, showError (js ''Article text must be at least 20 characters long'') w)
      else if length text > 10000 then
        (False, showError (js ''Article text must be less than 10,000 characters'') w)
      else (True, w))"

text \<open>
  handleFormSubmit is an async function with one \<^verbatim>\<open>await\<close>. \<open>handleFormSubmit\<close> is the
  part that runs when the submit event is dispatched, up to the \<^verbatim>\<open>await\<close>: on the path
  that reaches it, the call of \<^verbatim>\<open>api.detectFakeNews(title, text)\<close> puts one request in
  flight. \<open>handleFormSubmit_settled\<close> is the part that runs when that call has settled
  with an outcome: the rest of the \<^verbatim>\<open>try\<close>, the \<^verbatim>\<open>catch\<close> and the \<^verbatim>\<open>finally\<close>.
\<close>

definition handleFormSubmit :: "world \<Rightarrow> world" where
  "handleFormSubmit w =
     (if isAnalyzing w then w
      else
        (let title = trim (newsTitle w);
             text = trim (newsText w)
         in case validateInputs title text w of
              (False, w1) \<Rightarrow> w1
            | (True, w1) \<Rightarrow>
                (let w2 = showLoading (w1\<lparr>isAnalyzing := True\<rparr>)
                 in w2\<lparr>in_flight := in_flight w2 @ [\<lparr>request_title = title, request_text = text\<rparr>]\<rparr>)))"

definition handleFormSubmit_settled :: "request_outcome \<Rightarrow> world \<Rightarrow> world" where
  "handleFormSubmit_settled result w =
     (let w1 =
        (case result of
           Success data \<Rightarrow>
             (case showResults data w of
                (w', None) \<Rightarrow> w'
              | (w', Some e) \<Rightarrow> showError (js ''An unexpected error occurred. Please try again.'') w')
         | Failure msg \<Rightarrow> showError msg w)
      in w1\<lparr>isAnalyzing := False\<rparr>)"

section \<open>Events\<close>

text \<open>
  A timer's callback runs. The rotation moves to the next message, wrapping; the typing
  effect appends one code unit of the explanation or, at its end, cancels itself (with
  no explanation in the payload, \<^verbatim>\<open>text.length\<close> throws and nothing changes); the delay
  of the bars runs once.
\<close>

definition set_timer :: "nat \<Rightarrow> timer \<Rightarrow> world \<Rightarrow> world" where
  "set_timer h t w = w\<lparr>timers := map (\<lambda>p. if fst p = h then (h, t) else p) (timers w)\<rparr>"

definition timer_fires :: "nat \<Rightarrow> world \<Rightarrow> world" where
  "timer_fires h w =
     (case map_of (timers w) h of
        None \<Rightarrow> w
      | Some (MessageInterval messageIndex) \<Rightarrow>
          (let i = (messageIndex + 1) mod length LOADING_MESSAGES
           in set_timer h (MessageInterval i) (w\<lparr>loadingStep := LOADING_MESSAGES ! i\<rparr>))
      | Some (TypeInterval i None) \<Rightarrow> w
      | Some (TypeInterval i (Some s)) \<Rightarrow>
          (if i < length s
           then set_timer h (TypeInterval (i + 1) (Some s))
                  (w\<lparr>explanationText := explanationText w @ [s ! i]\<rparr>)
           else clearInterval h w)
      | Some BarTimeout \<Rightarrow> clearInterval h w)"

text \<open>
  The events the listeners of setupEventListeners react to, the timers, and the
  settling of the request in flight. A sample button passes its \<^verbatim>\<open>data-sample\<close> in
  upper case; a tab button passes its \<^verbatim>\<open>data-tab\<close>. Editing the title has no listener;
  editing the text runs updateCharCount. The share button changes nothing on the page.
  The transport settles the oldest request in flight as detectFakeNews does for what
  the network did; when detectFakeNews never settles, nothing happens.
\<close>

datatype event =
    Submit
  | EditTitle js_string
  | EditText js_string
  | ClickSample js_string
  | ClickAnalyzeAnother
  | ClickRetry
  | ClickShare
  | ClickTab js_string
  | TimerFires nat
  | TransportSettles network

definition step :: "world \<Rightarrow> event \<Rightarrow> world" where
  "step w ev =
     (case ev of
        Submit \<Rightarrow> handleFormSubmit w
      | EditTitle s \<Rightarrow> w\<lparr>newsTitle := s\<rparr>
      | EditText s \<Rightarrow> updateCharCount (w\<lparr>newsText := s\<rparr>)
      | ClickSample type \<Rightarrow> fillSample type w
      | ClickAnalyzeAnother \<Rightarrow> resetToForm w
      | ClickRetry \<Rightarrow> resetToForm w
      | ClickShare \<Rightarrow> w
      | ClickTab tab \<Rightarrow> filterHighlights tab w
      | TimerFires h \<Rightarrow> timer_fires h w
      | TransportSettles net \<Rightarrow>
          (case in_flight w of
             [] \<Rightarrow> w
           | r # rs \<Rightarrow>
               (case detectFakeNews api (request_title r) (request_text r) net of
                  None \<Rightarrow> w
                | Some result \<Rightarrow> handleFormSubmit_settled result (w\<lparr>in_flight := rs\<rparr>))))"

definition run :: "world \<Rightarrow> event list \<Rightarrow> world" where
  "run w evs = foldl step w evs"

text \<open>
  The page once both constructors have run and the listeners are installed: the tab is
  \<^verbatim>\<open>'all'\<close>, there is no result and no interval handle, no analysis is running, no
  timer of the page is set and no request is in flight. Timer handles are positive.
\<close>

definition page_loaded :: "world \<Rightarrow> bool" where
  "page_loaded w =
     (currentTab w = js ''all'' \<and> currentResults w = None \<and> loadingInterval w = None \<and>
      \<not> isAnalyzing w \<and> timers w = [] \<and> 0 < next_timer w \<and> in_flight w = [])"

text \<open>A page for examples: the form is shown and empty, with the three tab buttons.\<close>

definition fresh_page :: world where
  "fresh_page = \<lparr>
     currentTab = js ''all'', currentResults = None, loadingInterval = None,
     isAnalyzing = False,
     detectionForm_hidden = False, loadingState_hidden = True,
     resultsSection_hidden = True, errorState_hidden = True,
     loadingStep = [], errorMessage = [], resultBadge = [], badgeText = [],
     explanationText = [], highlightsGrid = [],
     tab_btn = [(js ''all'', True), (js ''fake'', False), (js ''real'', False)],
     requestId = [], requestId_title = [],
     newsTitle = [], newsText = [], charCount = 0, charCount_color = [],
     timers = [], next_timer = 1, in_flight = []\<rparr>"

section \<open>Example inputs\<close>

definition no_properties :: json_object where
  "no_properties = \<lparr>error = None, prediction = None, confidence = None,
     fake_probability = None, real_probability = None, explanation = None,
     word_highlights = None, processing_time_ms = None, request_id = None,
     timestamp = None\<rparr>"

text \<open>A gateway answers 502 with an HTML page, which \<^verbatim>\<open>response.json()\<close> cannot parse.\<close>

definition html_502 :: network where
  "html_502 = Responds 40 \<lparr>status = 502,
     json = Some (Rejected \<lparr>name = js ''SyntaxError'',
                            message = js ''Unexpected token < in JSON at position 0''\<rparr>)\<rparr>"

text \<open>The backend answers 500 with the body \<^verbatim>\<open>{"error": ""}\<close>.\<close>

definition empty_error_500 :: network where
  "empty_error_500 = Responds 40 \<lparr>status = 500,
     json = Some (Fulfilled (Some (no_properties\<lparr>error := Some []\<rparr>)))\<rparr>"

text \<open>
  The backend answers 200 after 20 milliseconds, and the body of the response never
  completes.
\<close>

definition stalled_body :: network where
  "stalled_body = Responds 20 \<lparr>status = 200, json = None\<rparr>"

definition example_title :: js_string where
  "example_title = js ''  Miracle cure found  ''"

definition example_text :: js_string where
  "example_text = js ''Scientists say the new treatment works wonders.''"

definition padded_short_title :: js_string where
  "padded_short_title = js ''   abc    ''"

text \<open>
  The form of a fresh page filled in, and that page once the form has been submitted.
\<close>

definition form_filled :: world where
  "form_filled = run fresh_page [EditTitle example_title, EditText example_text]"

definition analysis_started :: world where
  "analysis_started = step form_filled Submit"

text \<open>
  A result with three highlights, two of them fake, and a result with a single real one;
  the network answering 200 with a given object after one second.
\<close>

definition example_result :: json_object where
  "example_result = \<lparr>error = None, prediction = Some (js ''Fake''),
     confidence = Some (Decimal 82 (-2)), fake_probability = Some (Decimal 82 (-2)),
     real_probability = Some (Decimal 18 (-2)),
     explanation = Some (js ''Sensational wording.''),
     word_highlights = Some [
       \<lparr>word = js ''miracle'', importance = Decimal 9 (-1), direction = DirFake\<rparr>,
       \<lparr>word = js ''confirmed'', importance = Decimal 4 (-1), direction = DirReal\<rparr>,
       \<lparr>word = js ''shocking'', importance = Decimal 7 (-1), direction = DirFake\<rparr>],
     processing_time_ms = Some (Decimal 1234 0),
     request_id = Some (js ''123e4567-e89b-12d3-a456-426614174000''),
     timestamp = Some (js ''2024-01-01T00:00:00Z'')\<rparr>"

definition one_real_result :: json_object where
  "one_real_result = example_result\<lparr>prediction := Some (js ''Real''),
     word_highlights := Some [\<lparr>word = js ''confirmed'', importance = Decimal 4 (-1), direction = DirReal\<rparr>]\<rparr>"

definition answers :: "json_object \<Rightarrow> network" where
  "answers d = Responds 1000 \<lparr>status = 200, json = Some (Fulfilled (Some d))\<rparr>"

text \<open>
  Two analyses in a row: the first result is shown, the user picks the tab
  \<^verbatim>\<open>'fake'\<close>, goes back to the form, submits again, and the second result is shown.
\<close>

definition second_analysis :: world where
  "second_analysis = run fresh_page
     [EditTitle example_title, EditText example_text, Submit,
      TransportSettles (answers example_result),
      ClickTab (js ''fake''),
      ClickAnalyzeAnother,
      EditTitle example_title, EditText example_text, Submit,
      TransportSettles (answers one_real_result)]"

section \<open>What is observed of a page\<close>

text \<open>
  The highlights of a payload as updateWordHighlights takes them
  (\<^verbatim>\<open>data.word_highlights || []\<close>); of a grid, the \<^verbatim>\<open>display\<close> of each highlight item and
  the data items shown, both in document order; and the running timers that rotate the
  loading message.
\<close>

definition highlights_of :: "json_object \<Rightarrow> word_highlight list" where
  "highlights_of d = (case word_highlights d of Some hs \<Rightarrow> hs | None \<Rightarrow> [])"

definition displays :: "grid_child list \<Rightarrow> js_string list" where
  "displays g = concat (map (\<lambda>c. case c of HighlightItem it \<Rightarrow> [display it] | NoHighlights \<Rightarrow> []) g)"

definition rendered_items :: "grid_child list \<Rightarrow> word_highlight list" where
  "rendered_items g = concat (map (\<lambda>c. case c of HighlightItem it \<Rightarrow> [item it] | NoHighlights \<Rightarrow> []) g)"

definition is_rotation :: "timer \<Rightarrow> bool" where
  "is_rotation t = (case t of MessageInterval i \<Rightarrow> True | _ \<Rightarrow> False)"

definition rotation_timers :: "world \<Rightarrow> (nat \<times> timer) list" where
  "rotation_timers w = filter (\<lambda>p. is_rotation (snd p)) (timers w)"

section \<open>Invariants\<close>

text \<open>
  What every event keeps. Timer handles are positive and below the counter, and a
  rotation runs only while an analysis is running and the loading section is shown, under
  the handle kept in \<^verbatim>\<open>loadingInterval\<close>. A request is in flight exactly while
  \<^verbatim>\<open>isAnalyzing\<close> is set, and never more than one. A page is quiet when no rotation runs.
  \<open>rendered tab d\<close> is the grid that updateWordHighlights builds for \<open>d\<close> under \<open>tab\<close>.
\<close>

definition timer_inv :: "world \<Rightarrow> bool" where
  "timer_inv w =
     (0 < next_timer w \<and>
      (\<forall>p \<in> set (timers w). 0 < fst p \<and> fst p < next_timer w) \<and>
      (\<forall>p \<in> set (timers w). is_rotation (snd p) \<longrightarrow>
           loadingInterval w = Some (fst p) \<and> isAnalyzing w \<and> \<not> loadingState_hidden w))"

definition flight_inv :: "world \<Rightarrow> bool" where
  "flight_inv w = ((in_flight w = [] \<longleftrightarrow> \<not> isAnalyzing w) \<and> length (in_flight w) \<le> 1)"

definition quiet :: "world \<Rightarrow> bool" where
  "quiet w =
     (0 < next_timer w \<and>
      (\<forall>p \<in> set (timers w). 0 < fst p \<and> fst p < next_timer w \<and> \<not> is_rotation (snd p)))"

definition rendered :: "js_string \<Rightarrow> json_object \<Rightarrow> grid_child list" where
  "rendered tab d =
     (if highlights_of d = [] then [NoHighlights]
      else map (\<lambda>(i, h). render_highlight tab i h)
             (zip [0..<length (highlights_of d)] (highlights_of d)))"

section \<open>Facts about strings\<close>

lemma unat_of_char_16: "unat (of_char c :: code_unit) = of_char c"
proof -
  have "(of_char c :: code_unit) = of_nat (of_char c)"
    by (simp only: of_nat_of_char)
  moreover have "(of_char c :: nat) < 2 ^ LENGTH(16)"
    by (rule less_trans [OF nat_of_char_less_256]) simp
  ultimately show ?thesis
    by (metis unat_of_nat mod_less)
qed

lemma of_char_16_eq_iff: "(of_char a :: code_unit) = of_char b \<longleftrightarrow> a = b"
proof
  assume "(of_char a :: code_unit) = of_char b"
  then have "unat (of_char a :: code_unit) = unat (of_char b :: code_unit)" by simp
  then have "(of_char a :: nat) = of_char b" by (simp only: unat_of_char_16)
  then show "a = b" by simp
qed simp

lemma js_eq_iff [simp]: "js a = js b \<longleftrightarrow> a = b"
  unfolding js_def by (simp add: inj_map_eq_map inj_on_def of_char_16_eq_iff)

lemma js_Nil [simp]: "js s = [] \<longleftrightarrow> s = []" "[] = js s \<longleftrightarrow> s = []"
  by (auto simp: js_def)

lemma js_append [simp]: "js a @ js b = js (a @ b)"
  by (simp add: js_def)

lemma length_js [simp]: "length (js s) = length s"
  by (simp add: js_def)

lemma trim_example_title: "trim example_title = js ''Miracle cure found''"
  by (simp add: example_title_def js_def trim_def is_js_whitespace_def)

lemma trim_example_text: "trim example_text = example_text"
  by (simp add: example_text_def js_def trim_def is_js_whitespace_def)

lemma trim_padded_short_title: "trim padded_short_title = js ''abc''"
  by (simp add: padded_short_title_def js_def trim_def is_js_whitespace_def)

lemma decimal_500: "decimal 500 = js ''500''"
  by (simp add: decimal.simps js_def)

lemma decimal_502: "decimal 502 = js ''502''"
  by (simp add: decimal.simps js_def)

section \<open>The transport\<close>

lemma new_Error_sel [simp]: "name (new_Error m) = js ''Error''" "message (new_Error m) = m"
  by (simp_all add: new_Error_def)

lemma makeRequest_catch_Error [simp]:
  "makeRequest_catch (new_Error m) = Rejected (new_Error m)"
  by (simp add: makeRequest_catch_def)

lemma makeRequest_catch_AbortError [simp]:
  "makeRequest_catch AbortError =
     Rejected (new_Error (js ''Request timed out. The analysis is taking longer than expected.''))"
  by (simp add: makeRequest_catch_def AbortError_def)

lemma fetch_late: "\<not> arrives_within d net \<Longrightarrow> fetch d net = Rejected AbortError"
  by (cases net) (simp_all add: fetch_def arrives_within_def)

text \<open>
  While the fetch itself has not settled by the configured timeout (the network answers
  or fails later, or never), the timer aborts it, makeRequest rejects with the timeout
  error in place of the AbortError, and detectFakeNews settles with the failure outcome
  that carries the timeout message.
\<close>

lemma timeout_gives_failure:
  assumes "\<not> arrives_within (timeout a) net"
  shows "makeRequest a net =
           Some (Rejected (new_Error (js ''Request timed out. The analysis is taking longer than expected.'')))
       \<and> detectFakeNews a title text net =
           Some (Failure (js ''Request timed out. The analysis is taking longer than expected.''))"
  using assms by (simp add: makeRequest_def detectFakeNews_def fetch_late)

lemma timeout_gives_failure_example:
  "\<not> arrives_within (timeout api) Silent
   \<and> \<not> arrives_within (timeout api) (Responds 600001 \<lparr>status = 200, json = None\<rparr>)
   \<and> detectFakeNews api (js ''A title'') (js ''Some article text'') Silent =
       Some (Failure (js ''Request timed out. The analysis is taking longer than expected.''))
   \<and> detectFakeNews api (js ''A title'') (js ''Some article text'')
        (Responds 600001 \<lparr>status = 200, json = None\<rparr>) =
       Some (Failure (js ''Request timed out. The analysis is taking longer than expected.''))"
proof -
  have a: "\<not> arrives_within (timeout api) Silent"
    by (simp add: arrives_within_def)
  have b: "\<not> arrives_within (timeout api) (Responds 600001 \<lparr>status = 200, json = None\<rparr>)"
    by (simp add: arrives_within_def api_def REQUEST_TIMEOUT_def)
  show ?thesis
    using a b timeout_gives_failure [OF a] timeout_gives_failure [OF b] by simp
qed

text \<open>
  Once the fetch has settled the timer is gone (\<^verbatim>\<open>clearTimeout\<close> runs before
  \<^verbatim>\<open>response.json()\<close> is awaited): when the body then never completes, neither
  makeRequest nor detectFakeNews settles, whatever the timeout.
\<close>

lemma stalled_body_never_settles:
  assumes "t \<le> timeout a" and "json r = None"
  shows "makeRequest a (Responds t r) = None \<and> detectFakeNews a title text (Responds t r) = None"
  using assms by (simp add: makeRequest_def detectFakeNews_def fetch_def)

text \<open>
  C4 does not hold of the code. The claim is that a transport call whose response has not
  arrived within the configured timeout is aborted and resolves to the failure outcome
  with the timeout message, rather than hanging. When the headers of the response arrive
  after 20 milliseconds and its body never does, the timer has been cleared by then, the
  call is never aborted, and makeRequest and detectFakeNews never settle: there is no
  outcome at all, and in particular not the timeout failure.
\<close>

theorem stalled_body_hangs:
  "makeRequest api stalled_body = None
   \<and> detectFakeNews api (js ''Miracle cure found'') example_text stalled_body = None
   \<and> detectFakeNews api (js ''Miracle cure found'') example_text stalled_body \<noteq>
       Some (Failure (js ''Request timed out. The analysis is taking longer than expected.''))"
proof -
  have t: "(20::nat) \<le> timeout api"
    by (simp add: api_def REQUEST_TIMEOUT_def)
  have j: "json \<lparr>status = 200, json = None\<rparr> = None"
    by simp
  show ?thesis
    using stalled_body_never_settles [OF t j] by (simp add: stalled_body_def)
qed

text \<open>
  C5, as stated, fails in both halves. When the body of a 502 is not JSON,
  \<^verbatim>\<open>response.json()\<close> rejects, nothing catches that before the outer \<^verbatim>\<open>catch\<close>, and the
  outcome carries the parser's message, not "HTTP error! status: 502". When the body of
  a 500 is \<^verbatim>\<open>{"error": ""}\<close>, the outcome carries the generic message, not the backend's
  (empty) one.
\<close>

theorem http_error_counterexample:
  "detectFakeNews api [] [] html_502 = Some (Failure (js ''Unexpected token < in JSON at position 0''))
   \<and> detectFakeNews api [] [] html_502 \<noteq> Some (Failure (http_error_message 502))
   \<and> detectFakeNews api [] [] empty_error_500 = Some (Failure (js ''HTTP error! status: 500''))
   \<and> detectFakeNews api [] [] empty_error_500 \<noteq> Some (Failure [])"
  by (simp add: detectFakeNews_def makeRequest_def fetch_def html_502_def empty_error_500_def
      api_def REQUEST_TIMEOUT_def ok_def makeRequest_catch_def http_error_message_def
      decimal_500 decimal_502 no_properties_def)

text \<open>
  C5, amended. For a response with a non-success status that arrives in time and whose
  body parses as a JSON object, the failure outcome carries the object's \<^verbatim>\<open>error\<close> when
  that is a non-empty string, and the generic message "HTTP error! status: <code>" when
  the object has no \<^verbatim>\<open>error\<close> or an empty one.
\<close>

theorem http_error_outcome:
  assumes "t \<le> timeout a" and "\<not> ok r" and "json r = Some (Fulfilled (Some obj))"
  shows "detectFakeNews a title text (Responds t r) =
           Some (Failure (case error obj of
                            Some m \<Rightarrow> if m \<noteq> [] then m else http_error_message (status r)
                          | None \<Rightarrow> http_error_message (status r)))"
  using assms by (simp add: detectFakeNews_def makeRequest_def fetch_def)

theorem http_error_outcome_witness:
  "(40::nat) \<le> timeout api
   \<and> \<not> ok \<lparr>status = 500, json = Some (Fulfilled (Some (no_properties\<lparr>error := Some (js ''Model not loaded'')\<rparr>)))\<rparr>
   \<and> detectFakeNews api [] [] (Responds 40 \<lparr>status = 500,
        json = Some (Fulfilled (Some (no_properties\<lparr>error := Some (js ''Model not loaded'')\<rparr>)))\<rparr>)
      = Some (Failure (js ''Model not loaded''))
   \<and> detectFakeNews api [] [] (Responds 40 \<lparr>status = 500,
        json = Some (Fulfilled (Some no_properties))\<rparr>)
      = Some (Failure (js ''HTTP error! status: 500''))"
proof -
  let ?r1 = "\<lparr>status = 500, json = Some (Fulfilled (Some (no_properties\<lparr>error := Some (js ''Model not loaded'')\<rparr>)))\<rparr>"
  let ?r2 = "\<lparr>status = 500, json = Some (Fulfilled (Some no_properties))\<rparr>"
  have t: "(40::nat) \<le> timeout api" by (simp add: api_def REQUEST_TIMEOUT_def)
  have n1: "\<not> ok ?r1" and n2: "\<not> ok ?r2" by (simp_all add: ok_def)
  have e: "error no_properties = None" by (simp add: no_properties_def)
  show ?thesis
    using t n1 http_error_outcome [OF t n1, of _ "[]" "[]"] http_error_outcome [OF t n2, of _ "[]" "[]"]
    by (simp add: http_error_message_def decimal_500 e)
qed

section \<open>The timers and the request in flight\<close>

lemma is_rotation_simps [simp]:
  "is_rotation (MessageInterval i)" "\<not> is_rotation (TypeInterval j s)" "\<not> is_rotation BarTimeout"
  by (simp_all add: is_rotation_def)

lemma page_loaded_inv: "page_loaded w \<Longrightarrow> timer_inv w \<and> flight_inv w"
  by (simp add: page_loaded_def timer_inv_def flight_inv_def)

lemma quiet_timer_inv: "quiet w \<Longrightarrow> timer_inv w"
  by (auto simp: quiet_def timer_inv_def)

lemma quiet_rotation_timers: "quiet w \<Longrightarrow> rotation_timers w = []"
  by (auto simp: quiet_def rotation_timers_def filter_empty_conv)

subsection \<open>hideLoading\<close>

lemma hideLoading_frame [simp]:
  "isAnalyzing (hideLoading w) = isAnalyzing w"
  "in_flight (hideLoading w) = in_flight w"
  "next_timer (hideLoading w) = next_timer w"
  "currentTab (hideLoading w) = currentTab w"
  "currentResults (hideLoading w) = currentResults w"
  "highlightsGrid (hideLoading w) = highlightsGrid w"
  "tab_btn (hideLoading w) = tab_btn w"
  "loadingState_hidden (hideLoading w) = loadingState_hidden w"
  "newsTitle (hideLoading w) = newsTitle w"
  "newsText (hideLoading w) = newsText w"
  "errorMessage (hideLoading w) = errorMessage w"
  by (simp_all add: hideLoading_def clearInterval_def split: option.split)

lemma hideLoading_timers_subset: "set (timers (hideLoading w)) \<subseteq> set (timers w)"
  by (auto simp: hideLoading_def clearInterval_def split: option.split)

lemma quiet_hideLoading:
  assumes "timer_inv w"
  shows "quiet (hideLoading w)"
proof -
  have r: "\<not> is_rotation (snd p)" if "p \<in> set (timers (hideLoading w))" for p
  proof
    assume r: "is_rotation (snd p)"
    from that have m: "p \<in> set (timers w)" using hideLoading_timers_subset by blast
    with assms r have l: "loadingInterval w = Some (fst p)" and "0 < fst p"
      by (auto simp: timer_inv_def)
    then have "timers (hideLoading w) = filter (\<lambda>q. fst q \<noteq> fst p) (timers w)"
      by (simp add: hideLoading_def clearInterval_def)
    with that show False by simp
  qed
  have b: "0 < fst p \<and> fst p < next_timer w" if "p \<in> set (timers (hideLoading w))" for p
    using assms that hideLoading_timers_subset [of w] by (auto simp: timer_inv_def)
  show ?thesis
    using assms r b by (auto simp: quiet_def timer_inv_def)
qed

subsection \<open>showResults\<close>

lemma and_then_preserves:
  assumes "P (fst r)" and "\<And>w w'. P w \<Longrightarrow> f w = Inr w' \<Longrightarrow> P w'"
  shows "P (fst (and_then r f))"
  using assms by (auto simp: and_then_def split: prod.split option.split sum.split)

lemma updateResultHeader_Inr:
  "updateResultHeader data w = Inr w' \<Longrightarrow> \<exists>b t. w' = w\<lparr>resultBadge := b, badgeText := t\<rparr>"
  by (cases data) (auto simp: updateResultHeader_def Let_def)

lemma updateProbabilityBars_Inr:
  "updateProbabilityBars data w = Inr w' \<Longrightarrow> w' = snd (setInterval BarTimeout w)"
  by (cases data) (auto simp: updateProbabilityBars_def setTimeout_def)

lemma updateExplanation_Inr:
  "updateExplanation data w = Inr w' \<Longrightarrow>
     \<exists>x. w' = snd (setInterval (TypeInterval 0 x) (w\<lparr>explanationText := []\<rparr>))"
  by (cases data) (auto simp: updateExplanation_def)

lemma updateWordHighlights_Inr:
  "updateWordHighlights data w = Inr w' \<Longrightarrow> \<exists>g. w' = w\<lparr>highlightsGrid := g\<rparr>"
  by (cases data) (auto simp: updateWordHighlights_def Let_def split: if_splits)

lemma updateMetadata_Inr:
  "updateMetadata data w = Inr w' \<Longrightarrow> \<exists>a b. w' = w\<lparr>requestId := a, requestId_title := b\<rparr>"
  by (cases data) (auto simp: updateMetadata_def split: option.splits)

lemma showResults_preserves:
  assumes "P ((hideLoading w)\<lparr>currentResults := data, detectionForm_hidden := True,
         loadingState_hidden := True, errorState_hidden := True, resultsSection_hidden := False\<rparr>)"
    and "\<And>v b t. P v \<Longrightarrow> P (v\<lparr>resultBadge := b, badgeText := t\<rparr>)"
    and "\<And>v. P v \<Longrightarrow> P (snd (setInterval BarTimeout v))"
    and "\<And>v x. P v \<Longrightarrow> P (snd (setInterval (TypeInterval 0 x) (v\<lparr>explanationText := []\<rparr>)))"
    and "\<And>v g. P v \<Longrightarrow> P (v\<lparr>highlightsGrid := g\<rparr>)"
    and "\<And>v a b. P v \<Longrightarrow> P (v\<lparr>requestId := a, requestId_title := b\<rparr>)"
  shows "P (fst (showResults data w))"
  unfolding showResults_def Let_def
proof (intro and_then_preserves [where P = P])
  show "P (fst ((hideLoading w)\<lparr>currentResults := data\<rparr>
       \<lparr>detectionForm_hidden := True, loadingState_hidden := True,
          errorState_hidden := True, resultsSection_hidden := False\<rparr>, None))"
    using assms(1) by simp
next
  fix v v' assume "P v" "updateResultHeader data v = Inr v'"
  then show "P v'" using assms(2) updateResultHeader_Inr by blast
next
  fix v v' assume "P v" "updateProbabilityBars data v = Inr v'"
  then show "P v'" using assms(3) updateProbabilityBars_Inr by blast
next
  fix v v' assume "P v" "updateExplanation data v = Inr v'"
  then show "P v'" using assms(4) updateExplanation_Inr by blast
next
  fix v v' assume "P v" "updateWordHighlights data v = Inr v'"
  then show "P v'" using assms(5) updateWordHighlights_Inr by blast
next
  fix v v' assume "P v" "updateMetadata data v = Inr v'"
  then show "P v'" using assms(6) updateMetadata_Inr by blast
qed

lemma quiet_showResults:
  assumes "timer_inv w"
  shows "quiet (fst (showResults data w))"
proof (rule showResults_preserves)
  show "quiet ((hideLoading w)\<lparr>currentResults := data, detectionForm_hidden := True,
         loadingState_hidden := True, errorState_hidden := True, resultsSection_hidden := False\<rparr>)"
    using quiet_hideLoading [OF assms] by (simp add: quiet_def)
qed (auto simp: quiet_def setInterval_def less_Suc_eq)

lemma showResults_frame [simp]:
  "isAnalyzing (fst (showResults data w)) = isAnalyzing w"
  "in_flight (fst (showResults data w)) = in_flight w"
  "currentTab (fst (showResults data w)) = currentTab w"
  "currentResults (fst (showResults data w)) = data"
  "loadingState_hidden (fst (showResults data w)) = True"
  "tab_btn (fst (showResults data w)) = tab_btn w"
  "newsTitle (fst (showResults data w)) = newsTitle w"
  "newsText (fst (showResults data w)) = newsText w"
proof -
  show "isAnalyzing (fst (showResults data w)) = isAnalyzing w"
    by (rule showResults_preserves [where P = "\<lambda>v. isAnalyzing v = isAnalyzing w"])
       (simp_all add: setInterval_def)
  show "in_flight (fst (showResults data w)) = in_flight w"
    by (rule showResults_preserves [where P = "\<lambda>v. in_flight v = in_flight w"])
       (simp_all add: setInterval_def)
  show "currentTab (fst (showResults data w)) = currentTab w"
    by (rule showResults_preserves [where P = "\<lambda>v. currentTab v = currentTab w"])
       (simp_all add: setInterval_def)
  show "currentResults (fst (showResults data w)) = data"
    by (rule showResults_preserves [where P = "\<lambda>v. currentResults v = data"])
       (simp_all add: setInterval_def)
  show "loadingState_hidden (fst (showResults data w)) = True"
    by (rule showResults_preserves [where P = "\<lambda>v. loadingState_hidden v = True"])
       (simp_all add: setInterval_def)
  show "tab_btn (fst (showResults data w)) = tab_btn w"
    by (rule showResults_preserves [where P = "\<lambda>v. tab_btn v = tab_btn w"])
       (simp_all add: setInterval_def)
  show "newsTitle (fst (showResults data w)) = newsTitle w"
    by (rule showResults_preserves [where P = "\<lambda>v. newsTitle v = newsTitle w"])
       (simp_all add: setInterval_def)
  show "newsText (fst (showResults data w)) = newsText w"
    by (rule showResults_preserves [where P = "\<lambda>v. newsText v = newsText w"])
       (simp_all add: setInterval_def)
qed

lemma snd_showResults:
  "snd (showResults data w) =
     (case data of
        None \<Rightarrow> Some (null_read (js ''prediction''))
      | Some d \<Rightarrow> (case request_id d of
                    None \<Rightarrow> Some (undefined_read (js ''substring''))
                  | Some rid \<Rightarrow> None))"
  by (simp add: showResults_def and_then_def updateResultHeader_def updateProbabilityBars_def
      updateExplanation_def updateWordHighlights_def updateMetadata_def Let_def
      split: option.split)

lemma grid_showResults:
  "highlightsGrid (fst (showResults (Some d) w)) =
     (if highlights_of d = [] then [NoHighlights]
      else map (\<lambda>(i, h). render_highlight (currentTab w) i h)
             (zip [0..<length (highlights_of d)] (highlights_of d)))"
  by (simp add: showResults_def and_then_def updateResultHeader_def updateProbabilityBars_def
      updateExplanation_def updateWordHighlights_def updateMetadata_def Let_def
      setTimeout_def setInterval_def highlights_of_def
      split: option.split)

subsection \<open>showError, resetToForm, showLoading\<close>

lemma quiet_showError: "timer_inv w \<Longrightarrow> quiet (showError msg w)"
  using quiet_hideLoading [of w] by (simp add: showError_def quiet_def)

lemma showError_frame [simp]:
  "isAnalyzing (showError msg w) = isAnalyzing w"
  "in_flight (showError msg w) = in_flight w"
  "currentTab (showError msg w) = currentTab w"
  "currentResults (showError msg w) = currentResults w"
  "highlightsGrid (showError msg w) = highlightsGrid w"
  "tab_btn (showError msg w) = tab_btn w"
  "loadingState_hidden (showError msg w) = True"
  "errorMessage (showError msg w) = msg"
  "errorState_hidden (showError msg w) = False"
  by (simp_all add: showError_def)

lemma quiet_resetToForm: "timer_inv w \<Longrightarrow> quiet (resetToForm w)"
  using quiet_hideLoading [of w] by (simp add: resetToForm_def quiet_def)

lemma resetToForm_frame [simp]:
  "isAnalyzing (resetToForm w) = isAnalyzing w"
  "in_flight (resetToForm w) = in_flight w"
  "currentTab (resetToForm w) = currentTab w"
  "currentResults (resetToForm w) = currentResults w"
  "loadingState_hidden (resetToForm w) = True"
  by (simp_all add: resetToForm_def)

lemma timer_inv_showLoading:
  assumes "quiet w"
  shows "timer_inv (showLoading (w\<lparr>isAnalyzing := True\<rparr>))"
  using assms
  by (auto simp: quiet_def timer_inv_def showLoading_def setInterval_def less_Suc_eq)

lemma not_analyzing_quiet: "timer_inv w \<Longrightarrow> \<not> isAnalyzing w \<Longrightarrow> quiet w"
  by (auto simp: timer_inv_def quiet_def)

lemma showLoading_frame [simp]:
  "isAnalyzing (showLoading w) = isAnalyzing w"
  "in_flight (showLoading w) = in_flight w"
  "currentTab (showLoading w) = currentTab w"
  "currentResults (showLoading w) = currentResults w"
  "loadingState_hidden (showLoading w) = False"
  by (simp_all add: showLoading_def setInterval_def)

subsection \<open>handleFormSubmit\<close>

lemma validateInputs_cases:
  "validateInputs title text w = (True, w) \<or>
   (\<exists>msg. validateInputs title text w = (False, showError msg w))"
  by (auto simp: validateInputs_def)

lemma handleFormSubmit_valid:
  assumes "\<not> isAnalyzing w"
    and "5 \<le> length (trim (newsTitle w))" "length (trim (newsTitle w)) \<le> 500"
    and "20 \<le> length (trim (newsText w))" "length (trim (newsText w)) \<le> 10000"
  shows "handleFormSubmit w =
     (showLoading (w\<lparr>isAnalyzing := True\<rparr>))\<lparr>in_flight := in_flight w @
        [\<lparr>request_title = trim (newsTitle w), request_text = trim (newsText w)\<rparr>]\<rparr>"
  using assms by (simp add: handleFormSubmit_def validateInputs_def Let_def)

lemma handleFormSubmit_inv:
  assumes "timer_inv w" "flight_inv w"
  shows "timer_inv (handleFormSubmit w) \<and> flight_inv (handleFormSubmit w)"
proof (cases "isAnalyzing w")
  case True
  with assms show ?thesis by (simp add: handleFormSubmit_def)
next
  case False
  let ?t = "trim (newsTitle w)" and ?x = "trim (newsText w)"
  from validateInputs_cases [of ?t ?x w] show ?thesis
  proof
    assume v: "validateInputs ?t ?x w = (True, w)"
    let ?w2 = "showLoading (w\<lparr>isAnalyzing := True\<rparr>)"
    have h: "handleFormSubmit w =
        ?w2\<lparr>in_flight := in_flight ?w2 @ [\<lparr>request_title = ?t, request_text = ?x\<rparr>]\<rparr>"
      using False v by (simp add: handleFormSubmit_def Let_def)
    have "timer_inv ?w2"
      using assms(1) False by (intro timer_inv_showLoading not_analyzing_quiet)
    then have "timer_inv (handleFormSubmit w)"
      by (simp add: h timer_inv_def)
    moreover have "in_flight w = []"
      using assms(2) False by (simp add: flight_inv_def)
    then have "flight_inv (handleFormSubmit w)"
      by (simp add: h flight_inv_def)
    ultimately show ?thesis ..
  next
    assume "\<exists>msg. validateInputs ?t ?x w = (False, showError msg w)"
    then obtain msg where v: "validateInputs ?t ?x w = (False, showError msg w)" ..
    have h: "handleFormSubmit w = showError msg w"
      using False v by (simp add: handleFormSubmit_def Let_def)
    show ?thesis
      using assms quiet_timer_inv [OF quiet_showError [OF assms(1), of msg]]
      by (simp add: h flight_inv_def)
  qed
qed

lemma handleFormSubmit_settled_eq:
  "handleFormSubmit_settled result w =
      (case result of
         Success data \<Rightarrow>
           (case snd (showResults data w) of
              None \<Rightarrow> fst (showResults data w)
            | Some e \<Rightarrow> showError (js ''An unexpected error occurred. Please try again.'')
                         (fst (showResults data w)))
       | Failure msg \<Rightarrow> showError msg w)\<lparr>isAnalyzing := False\<rparr>"
  by (simp add: handleFormSubmit_settled_def split: request_outcome.split prod.split option.split)

lemma settled_Success:
  assumes "request_id d = Some rid"
  shows "handleFormSubmit_settled (Success (Some d)) w =
           (fst (showResults (Some d) w))\<lparr>isAnalyzing := False\<rparr>"
  using assms by (simp add: handleFormSubmit_settled_eq snd_showResults)

lemma quiet_settled:
  assumes "timer_inv w"
  shows "quiet (handleFormSubmit_settled result w)"
proof -
  have q: "quiet (v\<lparr>isAnalyzing := False\<rparr>)" if "quiet v" for v
    using that by (simp add: quiet_def)
  show ?thesis
  proof (cases result)
    case (Failure msg)
    then show ?thesis
      using quiet_showError [OF assms, of msg] by (simp add: handleFormSubmit_settled_def q)
  next
    case (Success data)
    have qs: "quiet (fst (showResults data w))" by (rule quiet_showResults [OF assms])
    show ?thesis
    proof (cases "snd (showResults data w)")
      case None
      then show ?thesis
        using qs Success by (simp add: handleFormSubmit_settled_eq q)
    next
      case (Some e)
      then show ?thesis
        using quiet_showError [OF quiet_timer_inv [OF qs]] Success
        by (simp add: handleFormSubmit_settled_eq q)
    qed
  qed
qed

lemma settled_frame [simp]:
  "isAnalyzing (handleFormSubmit_settled result w) = False"
  "in_flight (handleFormSubmit_settled result w) = in_flight w"
  "loadingState_hidden (handleFormSubmit_settled result w) = True"
  "currentTab (handleFormSubmit_settled result w) = currentTab w"
proof -
  note eq = handleFormSubmit_settled_eq
  show "isAnalyzing (handleFormSubmit_settled result w) = False" by (simp add: eq)
  show "in_flight (handleFormSubmit_settled result w) = in_flight w"
    by (simp add: eq split: request_outcome.split option.split)
  show "loadingState_hidden (handleFormSubmit_settled result w) = True"
    by (simp add: eq split: request_outcome.split option.split)
  show "currentTab (handleFormSubmit_settled result w) = currentTab w"
    by (simp add: eq split: request_outcome.split option.split)
qed

subsection \<open>The other events\<close>

lemma timer_fires_inv:
  assumes "timer_inv w"
  shows "timer_inv (timer_fires h w)"
proof (cases "map_of (timers w) h")
  case None
  then show ?thesis using assms by (simp add: timer_fires_def)
next
  case (Some t)
  then have m: "(h, t) \<in> set (timers w)" by (rule map_of_SomeD)
  show ?thesis
  proof (cases t)
    case (MessageInterval i)
    with m assms have "loadingInterval w = Some h \<and> isAnalyzing w \<and> \<not> loadingState_hidden w"
      by (force simp: timer_inv_def)
    with assms Some MessageInterval show ?thesis
      by (auto simp: timer_fires_def timer_inv_def set_timer_def Let_def)
  next
    case (TypeInterval i s)
    with assms Some show ?thesis
      by (cases s) (auto simp: timer_fires_def timer_inv_def set_timer_def clearInterval_def)
  next
    case BarTimeout
    with assms Some show ?thesis
      by (auto simp: timer_fires_def timer_inv_def clearInterval_def)
  qed
qed

lemma timer_fires_frame [simp]:
  "isAnalyzing (timer_fires h w) = isAnalyzing w"
  "in_flight (timer_fires h w) = in_flight w"
  "currentTab (timer_fires h w) = currentTab w"
  "currentResults (timer_fires h w) = currentResults w"
  by (simp_all add: timer_fires_def set_timer_def clearInterval_def Let_def
      split: option.split timer.split)

lemma filterHighlights_frame [simp]:
  "isAnalyzing (filterHighlights tab w) = isAnalyzing w"
  "in_flight (filterHighlights tab w) = in_flight w"
  "timers (filterHighlights tab w) = timers w"
  "next_timer (filterHighlights tab w) = next_timer w"
  "loadingInterval (filterHighlights tab w) = loadingInterval w"
  "loadingState_hidden (filterHighlights tab w) = loadingState_hidden w"
  "currentTab (filterHighlights tab w) = tab"
  "currentResults (filterHighlights tab w) = currentResults w"
  by (simp_all add: filterHighlights_def Let_def)

lemma fillSample_frame [simp]:
  "isAnalyzing (fillSample type w) = isAnalyzing w"
  "in_flight (fillSample type w) = in_flight w"
  "timers (fillSample type w) = timers w"
  "next_timer (fillSample type w) = next_timer w"
  "loadingInterval (fillSample type w) = loadingInterval w"
  "loadingState_hidden (fillSample type w) = loadingState_hidden w"
  by (simp_all add: fillSample_def updateCharCount_def Let_def split: option.split)

lemma updateCharCount_frame [simp]:
  "isAnalyzing (updateCharCount w) = isAnalyzing w"
  "in_flight (updateCharCount w) = in_flight w"
  "timers (updateCharCount w) = timers w"
  "next_timer (updateCharCount w) = next_timer w"
  "loadingInterval (updateCharCount w) = loadingInterval w"
  "loadingState_hidden (updateCharCount w) = loadingState_hidden w"
  by (simp_all add: updateCharCount_def Let_def)

lemma updateCharCount_fields [simp]:
  "currentTab (updateCharCount w) = currentTab w"
  "newsTitle (updateCharCount w) = newsTitle w"
  "newsText (updateCharCount w) = newsText w"
  by (simp_all add: updateCharCount_def Let_def)

subsection \<open>Every event keeps the invariants\<close>

lemma step_inv:
  assumes "timer_inv w" "flight_inv w"
  shows "timer_inv (step w ev) \<and> flight_inv (step w ev)"
proof (cases ev)
  case Submit
  then show ?thesis using handleFormSubmit_inv [OF assms] by (simp add: step_def)
next
  case (EditTitle s)
  then show ?thesis using assms by (simp add: step_def timer_inv_def flight_inv_def)
next
  case (EditText s)
  then show ?thesis using assms by (simp add: step_def timer_inv_def flight_inv_def)
next
  case (ClickSample type)
  then show ?thesis using assms by (simp add: step_def timer_inv_def flight_inv_def)
next
  case ClickAnalyzeAnother
  then show ?thesis
    using assms quiet_timer_inv [OF quiet_resetToForm [OF assms(1)]]
    by (simp add: step_def flight_inv_def)
next
  case ClickRetry
  then show ?thesis
    using assms quiet_timer_inv [OF quiet_resetToForm [OF assms(1)]]
    by (simp add: step_def flight_inv_def)
next
  case ClickShare
  then show ?thesis using assms by (simp add: step_def)
next
  case (ClickTab tab)
  then show ?thesis using assms by (simp add: step_def timer_inv_def flight_inv_def)
next
  case (TimerFires h)
  then show ?thesis
    using assms timer_fires_inv [OF assms(1)] by (simp add: step_def flight_inv_def)
next
  case (TransportSettles net)
  show ?thesis
  proof (cases "in_flight w")
    case Nil
    then show ?thesis using assms TransportSettles by (simp add: step_def)
  next
    case (Cons r rs)
    with assms(2) have rs: "rs = []" by (simp add: flight_inv_def)
    show ?thesis
    proof (cases "detectFakeNews api (request_title r) (request_text r) net")
      case None
      then show ?thesis using assms TransportSettles Cons by (simp add: step_def)
    next
      case (Some result)
      have "timer_inv (w\<lparr>in_flight := rs\<rparr>)"
        using assms(1) by (simp add: timer_inv_def)
      then have "quiet (handleFormSubmit_settled result (w\<lparr>in_flight := rs\<rparr>))"
        by (rule quiet_settled)
      then show ?thesis
        using TransportSettles Cons Some rs
        by (simp add: step_def flight_inv_def quiet_timer_inv)
    qed
  qed
qed

lemma run_inv:
  assumes "timer_inv w" "flight_inv w"
  shows "timer_inv (run w evs) \<and> flight_inv (run w evs)"
  using assms unfolding run_def
  by (induction evs arbitrary: w) (simp_all add: step_inv)

lemma run_snoc: "run w (evs @ [ev]) = step (run w evs) ev"
  by (simp add: run_def)

section \<open>The highlight grid\<close>

lemma direction_string_simps [simp]:
  "direction_string DirFake = js ''fake''" "direction_string DirReal = js ''real''"
  by (simp_all add: direction_string_def)

lemma direction_string_eq [simp]:
  "direction_string d = js ''fake'' \<longleftrightarrow> d = DirFake"
  "direction_string d = js ''real'' \<longleftrightarrow> d = DirReal"
  "direction_string d \<noteq> js ''highlight-item''"
  "direction_string d \<noteq> js ''all''"
  by (cases d; simp add: direction_string_def)+

lemma filter_item_render:
  "filter_item tab (render_highlight tab0 i h) = render_highlight tab i h"
  by (cases "direction h") (auto simp: filter_item_def render_highlight_def Let_def direction_string_def)

lemma filter_item_NoHighlights [simp]: "filter_item tab NoHighlights = NoHighlights"
  by (simp add: filter_item_def)

lemma map_filter_item_rendered: "map (filter_item tab) (rendered tab0 d) = rendered tab d"
  by (simp add: rendered_def filter_item_render split_def)

lemma displays_render:
  "displays (map (\<lambda>(i, h). render_highlight tab i h) zs) =
     map (\<lambda>h. if tab = js ''all'' \<or> tab = direction_string (direction h)
               then js ''flex'' else js ''none'') (map snd zs)"
  by (induction zs) (auto simp: displays_def render_highlight_def)

lemma rendered_items_render:
  "rendered_items (map (\<lambda>(i, h). render_highlight tab i h) zs) = map snd zs"
  by (induction zs) (auto simp: rendered_items_def render_highlight_def)

lemma displays_rendered:
  "displays (rendered tab d) =
     map (\<lambda>h. if tab = js ''all'' \<or> tab = direction_string (direction h)
               then js ''flex'' else js ''none'') (highlights_of d)"
  by (simp add: rendered_def displays_render) (simp add: displays_def)

lemma rendered_items_rendered: "rendered_items (rendered tab d) = highlights_of d"
  by (simp add: rendered_def rendered_items_render) (simp add: rendered_items_def)

lemma grid_showResults_rendered:
  "highlightsGrid (fst (showResults (Some d) w)) = rendered (currentTab w) d"
  by (simp add: grid_showResults rendered_def)

lemma run_ClickTab:
  assumes "currentResults w = Some d" "highlightsGrid w = rendered (currentTab w) d"
  shows "currentResults (run w (map ClickTab tabs)) = Some d
       \<and> highlightsGrid (run w (map ClickTab tabs)) = rendered (currentTab (run w (map ClickTab tabs))) d
       \<and> in_flight (run w (map ClickTab tabs)) = in_flight w"
proof (induction tabs rule: rev_induct)
  case Nil
  then show ?case using assms by (simp add: run_def)
next
  case (snoc tab tabs)
  then show ?case
    by (simp add: run_snoc step_def filterHighlights_def Let_def map_filter_item_rendered)
qed

section \<open>The examples, evaluated\<close>

lemma page_loaded_fresh_page: "page_loaded fresh_page"
  by (simp add: page_loaded_def fresh_page_def)

lemma form_filled_eq:
  "form_filled = fresh_page\<lparr>newsTitle := example_title, newsText := example_text,
      charCount := 47, charCount_color := js ''var(--text-tertiary)''\<rparr>"
  by (simp add: form_filled_def run_def step_def updateCharCount_def Let_def example_text_def)

lemma analysis_started_eq:
  "analysis_started = form_filled\<lparr>isAnalyzing := True, detectionForm_hidden := True,
      loadingState_hidden := False, loadingInterval := Some 1,
      timers := [(1, MessageInterval 0)], next_timer := 2,
      in_flight := [\<lparr>request_title = js ''Miracle cure found'', request_text = example_text\<rparr>]\<rparr>"
  unfolding analysis_started_def step_def event.case handleFormSubmit_def
  by (simp add: form_filled_eq fresh_page_def trim_example_title trim_example_text
      validateInputs_def showLoading_def setInterval_def Let_def)
     (simp add: example_text_def)

lemma analysis_started_run:
  "run fresh_page [EditTitle example_title, EditText example_text, Submit] = analysis_started"
  by (simp add: analysis_started_def form_filled_def run_def)

lemma detectFakeNews_answers: "detectFakeNews api t x (answers d) = Some (Success (Some d))"
  by (simp add: detectFakeNews_def makeRequest_def fetch_def answers_def api_def
      REQUEST_TIMEOUT_def ok_def)

lemma request_id_examples [simp]:
  "request_id example_result = Some (js ''123e4567-e89b-12d3-a456-426614174000'')"
  "request_id one_real_result = Some (js ''123e4567-e89b-12d3-a456-426614174000'')"
  by (simp_all add: example_result_def one_real_result_def)

lemma highlights_of_example:
  "highlights_of example_result = [
       \<lparr>word = js ''miracle'', importance = Decimal 9 (-1), direction = DirFake\<rparr>,
       \<lparr>word = js ''confirmed'', importance = Decimal 4 (-1), direction = DirReal\<rparr>,
       \<lparr>word = js ''shocking'', importance = Decimal 7 (-1), direction = DirFake\<rparr>]"
  by (simp add: highlights_of_def example_result_def)

lemma highlights_of_one_real:
  "highlights_of one_real_result =
     [\<lparr>word = js ''confirmed'', importance = Decimal 4 (-1), direction = DirReal\<rparr>]"
  by (simp add: highlights_of_def one_real_result_def)

lemma step_settles:
  assumes "in_flight w = [r]" "request_id d = Some rid"
  shows "step w (TransportSettles (answers d)) =
           (fst (showResults (Some d) (w\<lparr>in_flight := []\<rparr>)))\<lparr>isAnalyzing := False\<rparr>"
  using assms by (simp add: step_def detectFakeNews_answers settled_Success)

lemma step_submit_form:
  assumes "\<not> isAnalyzing w" "newsTitle w = example_title" "newsText w = example_text"
  shows "step w Submit =
     (showLoading (w\<lparr>isAnalyzing := True\<rparr>))\<lparr>in_flight := in_flight w @
        [\<lparr>request_title = js ''Miracle cure found'', request_text = example_text\<rparr>]\<rparr>"
proof -
  have "length example_text = 47" by (simp add: example_text_def)
  then show ?thesis
    using assms handleFormSubmit_valid [of w]
    by (simp add: step_def trim_example_title trim_example_text)
qed

lemma second_analysis_eq:
  "second_analysis =
     (fst (showResults (Some one_real_result)
        ((step (updateCharCount ((resetToForm (filterHighlights (js ''fake'')
            (step analysis_started (TransportSettles (answers example_result)))))
              \<lparr>newsTitle := example_title, newsText := example_text\<rparr>)) Submit)
         \<lparr>in_flight := []\<rparr>)))\<lparr>isAnalyzing := False\<rparr>"
proof -
  let ?s1 = "step analysis_started (TransportSettles (answers example_result))"
  let ?s3 = "resetToForm (filterHighlights (js ''fake'') ?s1)"
  let ?s5 = "updateCharCount (?s3\<lparr>newsTitle := example_title, newsText := example_text\<rparr>)"
  let ?s6 = "step ?s5 Submit"
  have f0: "in_flight analysis_started =
      [\<lparr>request_title = js ''Miracle cure found'', request_text = example_text\<rparr>]"
    by (simp add: analysis_started_eq)
  have s1: "?s1 = (fst (showResults (Some example_result) (analysis_started\<lparr>in_flight := []\<rparr>)))
               \<lparr>isAnalyzing := False\<rparr>"
    by (rule step_settles [OF f0]) simp
  have a5: "\<not> isAnalyzing ?s5" "in_flight ?s5 = []"
    by (simp_all add: s1)
  have s6: "?s6 = (showLoading (?s5\<lparr>isAnalyzing := True\<rparr>))\<lparr>in_flight := in_flight ?s5 @
        [\<lparr>request_title = js ''Miracle cure found'', request_text = example_text\<rparr>]\<rparr>"
    by (rule step_submit_form) (simp_all add: s1)
  have f6: "in_flight ?s6 = [\<lparr>request_title = js ''Miracle cure found'', request_text = example_text\<rparr>]"
    unfolding s6 using a5 by simp
  have "second_analysis = step ?s6 (TransportSettles (answers one_real_result))"
    unfolding second_analysis_def
    by (simp add: run_def analysis_started_def form_filled_def) (simp add: step_def)
  also have "\<dots> = (fst (showResults (Some one_real_result) (?s6\<lparr>in_flight := []\<rparr>)))
               \<lparr>isAnalyzing := False\<rparr>"
    by (rule step_settles [OF f6]) simp
  finally show ?thesis .
qed

section \<open>The orchestrator\<close>

text \<open>
  C1. A submit that is dispatched while \<^verbatim>\<open>isAnalyzing\<close> is true leaves the page exactly as
  it was: no request is handed to the transport, nothing is queued, no section changes
  and no error is shown (the handler only logs and calls \<^verbatim>\<open>preventDefault\<close>, which are not
  part of the state). Hence, from a loaded page and after any sequence of events, at most
  one analysis request is in flight, and while one is, a further submit changes nothing.
\<close>

theorem submit_while_analyzing:
  assumes "page_loaded w0"
  shows "(isAnalyzing w \<longrightarrow> handleFormSubmit w = w \<and> step w Submit = w)
       \<and> length (in_flight (run w0 evs)) \<le> 1
       \<and> (in_flight (run w0 evs) \<noteq> [] \<longrightarrow> run w0 (evs @ [Submit]) = run w0 evs)"
proof -
  have inv: "timer_inv (run w0 evs) \<and> flight_inv (run w0 evs)"
    using page_loaded_inv [OF assms] by (simp add: run_inv)
  have noop: "handleFormSubmit v = v \<and> step v Submit = v" if "isAnalyzing v" for v
    using that by (simp add: handleFormSubmit_def step_def)
  from inv have "in_flight (run w0 evs) \<noteq> [] \<longrightarrow> isAnalyzing (run w0 evs)"
    by (simp add: flight_inv_def)
  with inv noop show ?thesis
    by (simp add: flight_inv_def run_snoc)
qed

theorem submit_while_analyzing_witness:
  "page_loaded fresh_page
   \<and> isAnalyzing analysis_started
   \<and> handleFormSubmit analysis_started = analysis_started
   \<and> in_flight (run fresh_page [EditTitle example_title, EditText example_text, Submit]) \<noteq> []
   \<and> length (in_flight (run fresh_page [EditTitle example_title, EditText example_text, Submit])) \<le> 1
   \<and> run fresh_page ([EditTitle example_title, EditText example_text, Submit] @ [Submit])
       = run fresh_page [EditTitle example_title, EditText example_text, Submit]"
proof -
  have r: "run fresh_page [EditTitle example_title, EditText example_text, Submit] = analysis_started"
    by (simp add: analysis_started_def form_filled_def run_def)
  have a: "isAnalyzing analysis_started" and f: "in_flight analysis_started \<noteq> []"
    by (simp_all add: analysis_started_eq)
  show ?thesis
    using submit_while_analyzing [OF page_loaded_fresh_page, of analysis_started
        "[EditTitle example_title, EditText example_text, Submit]"] a f
    by (simp add: r page_loaded_fresh_page)
qed

text \<open>
  C2. A submit that passes validation while no analysis is running sets \<^verbatim>\<open>isAnalyzing\<close>.
  Whatever the outcome its request settles with, and in whatever state the page is by
  then, \<^verbatim>\<open>isAnalyzing\<close> is false once handleFormSubmit has completed: after showResults,
  after showError for a failure, and after the \<^verbatim>\<open>catch\<close> when showResults has thrown.
\<close>

theorem isAnalyzing_cleared:
  assumes "\<not> isAnalyzing w"
    and "fst (validateInputs (trim (newsTitle w)) (trim (newsText w)) w)"
    and "in_flight w' = r # rs"
    and "detectFakeNews api (request_title r) (request_text r) net = Some result"
  shows "isAnalyzing (handleFormSubmit w)
       \<and> \<not> isAnalyzing (handleFormSubmit_settled result w')
       \<and> \<not> isAnalyzing (step w' (TransportSettles net))"
proof -
  from assms(2) have "validateInputs (trim (newsTitle w)) (trim (newsText w)) w = (True, w)"
    using validateInputs_cases [of "trim (newsTitle w)" "trim (newsText w)" w] by auto
  with assms(1) have "isAnalyzing (handleFormSubmit w)"
    by (simp add: handleFormSubmit_def Let_def)
  with assms(3,4) show ?thesis
    by (simp add: step_def)
qed

theorem isAnalyzing_cleared_witness:
  "\<not> isAnalyzing form_filled
   \<and> fst (validateInputs (trim (newsTitle form_filled)) (trim (newsText form_filled)) form_filled)
   \<and> isAnalyzing (handleFormSubmit form_filled)
   \<and> snd (showResults (Some (example_result\<lparr>request_id := None\<rparr>)) (analysis_started\<lparr>in_flight := []\<rparr>))
        = Some (undefined_read (js ''substring''))
   \<and> \<not> isAnalyzing (step analysis_started (TransportSettles (answers (example_result\<lparr>request_id := None\<rparr>))))
   \<and> \<not> isAnalyzing (step analysis_started (TransportSettles (answers example_result)))
   \<and> \<not> isAnalyzing (step analysis_started (TransportSettles Silent))"
proof -
  let ?r = "\<lparr>request_title = js ''Miracle cure found'', request_text = example_text\<rparr>"
  have a: "\<not> isAnalyzing form_filled"
    by (simp add: form_filled_eq fresh_page_def)
  have v: "fst (validateInputs (trim (newsTitle form_filled)) (trim (newsText form_filled)) form_filled)"
    by (simp add: form_filled_eq validateInputs_def trim_example_title trim_example_text)
       (simp add: example_text_def)
  have f: "in_flight analysis_started = ?r # []"
    by (simp add: analysis_started_eq)
  have s: "detectFakeNews api (request_title ?r) (request_text ?r) Silent
      = Some (Failure (js ''Request timed out. The analysis is taking longer than expected.''))"
    by (simp add: detectFakeNews_def makeRequest_def fetch_def)
  show ?thesis
    using a v
      isAnalyzing_cleared [OF a v f detectFakeNews_answers [of _ _ "example_result\<lparr>request_id := None\<rparr>"]]
      isAnalyzing_cleared [OF a v f detectFakeNews_answers [of _ _ example_result]]
      isAnalyzing_cleared [OF a v f s]
    by (simp add: snd_showResults)
qed

text \<open>
  C3. validateInputs accepts exactly the titles of 5 to 500 code units with texts of 20 to
  10000 code units and then leaves the page alone. Otherwise it shows the message of the
  first rule that fails (showError puts the message it is given into the error section),
  in the order: title too short, title too long, text too short, text too long.
  handleFormSubmit validates the trimmed values of the two fields: when they are rejected
  it does what validateInputs did and sends nothing; when they are accepted it puts the
  request with the trimmed values in flight.
\<close>

theorem validation_rules:
  "(fst (validateInputs t x w) \<longleftrightarrow>
      5 \<le> length t \<and> length t \<le> 500 \<and> 20 \<le> length x \<and> length x \<le> 10000)
   \<and> (fst (validateInputs t x w) \<longrightarrow> snd (validateInputs t x w) = w)
   \<and> errorMessage (showError msg w) = msg \<and> \<not> errorState_hidden (showError msg w)
   \<and> (length t < 5 \<longrightarrow>
        validateInputs t x w = (False, showError (js ''Title must be at least 5 characters long'') w))
   \<and> (500 < length t \<longrightarrow>
        validateInputs t x w = (False, showError (js ''Title must be less than 500 characters'') w))
   \<and> (5 \<le> length t \<and> length t \<le> 500 \<and> length x < 20 \<longrightarrow>
        validateInputs t x w = (False, showError (js ''Article text must be at least 20 characters long'') w))
   \<and> (5 \<le> length t \<and> length t \<le> 500 \<and> 10000 < length x \<longrightarrow>
        validateInputs t x w = (False, showError (js ''Article text must be less than 10,000 characters'') w))
   \<and> (\<not> isAnalyzing w \<and> \<not> fst (validateInputs (trim (newsTitle w)) (trim (newsText w)) w) \<longrightarrow>
        handleFormSubmit w = snd (validateInputs (trim (newsTitle w)) (trim (newsText w)) w)
        \<and> in_flight (handleFormSubmit w) = in_flight w)
   \<and> (\<not> isAnalyzing w \<and> fst (validateInputs (trim (newsTitle w)) (trim (newsText w)) w) \<longrightarrow>
        in_flight (handleFormSubmit w) =
          in_flight w @ [\<lparr>request_title = trim (newsTitle w), request_text = trim (newsText w)\<rparr>])"
proof -
  have 1: "fst (validateInputs t x w) \<longleftrightarrow>
      5 \<le> length t \<and> length t \<le> 500 \<and> 20 \<le> length x \<and> length x \<le> 10000"
    by (auto simp: validateInputs_def)
  have 2: "fst (validateInputs t x w) \<longrightarrow> snd (validateInputs t x w) = w"
    by (simp add: validateInputs_def)
  have e: "errorMessage (showError msg w) = msg \<and> \<not> errorState_hidden (showError msg w)"
    by simp
  have 3: "length t < 5 \<longrightarrow>
        validateInputs t x w = (False, showError (js ''Title must be at least 5 characters long'') w)"
    by (simp add: validateInputs_def)
  have 4: "500 < length t \<longrightarrow>
        validateInputs t x w = (False, showError (js ''Title must be less than 500 characters'') w)"
    by (simp add: validateInputs_def)
  have 5: "5 \<le> length t \<and> length t \<le> 500 \<and> length x < 20 \<longrightarrow>
        validateInputs t x w = (False, showError (js ''Article text must be at least 20 characters long'') w)"
    by (simp add: validateInputs_def)
  have 6: "5 \<le> length t \<and> length t \<le> 500 \<and> 10000 < length x \<longrightarrow>
        validateInputs t x w = (False, showError (js ''Article text must be less than 10,000 characters'') w)"
    by (simp add: validateInputs_def)
  let ?v = "validateInputs (trim (newsTitle w)) (trim (newsText w)) w"
  have 7: "\<not> isAnalyzing w \<and> \<not> fst ?v \<longrightarrow>
        handleFormSubmit w = snd ?v \<and> in_flight (handleFormSubmit w) = in_flight w"
    using validateInputs_cases [of "trim (newsTitle w)" "trim (newsText w)" w]
    by (auto simp: handleFormSubmit_def Let_def)
  have 8: "\<not> isAnalyzing w \<and> fst ?v \<longrightarrow>
        in_flight (handleFormSubmit w) =
          in_flight w @ [\<lparr>request_title = trim (newsTitle w), request_text = trim (newsText w)\<rparr>]"
    using validateInputs_cases [of "trim (newsTitle w)" "trim (newsText w)" w]
    by (auto simp: handleFormSubmit_def Let_def)
  from 1 2 e 3 4 5 6 7 8 show ?thesis by blast
qed

theorem validation_rules_witness:
  "\<not> isAnalyzing (fresh_page\<lparr>newsTitle := padded_short_title, newsText := example_text\<rparr>)
   \<and> length padded_short_title = 10
   \<and> length (trim padded_short_title) < 5
   \<and> \<not> fst (validateInputs (trim padded_short_title) (trim example_text)
              (fresh_page\<lparr>newsTitle := padded_short_title, newsText := example_text\<rparr>))
   \<and> errorMessage (handleFormSubmit (fresh_page\<lparr>newsTitle := padded_short_title, newsText := example_text\<rparr>))
        = js ''Title must be at least 5 characters long''
   \<and> in_flight (handleFormSubmit (fresh_page\<lparr>newsTitle := padded_short_title, newsText := example_text\<rparr>)) = []
   \<and> 5 \<le> length (replicate 501 (0x61 :: code_unit)) \<and> 500 < length (replicate 501 (0x61 :: code_unit))
   \<and> validateInputs (replicate 501 0x61) [] fresh_page
        = (False, showError (js ''Title must be less than 500 characters'') fresh_page)
   \<and> validateInputs (js ''Miracle cure found'') (js ''Too short.'') fresh_page
        = (False, showError (js ''Article text must be at least 20 characters long'') fresh_page)
   \<and> validateInputs (js ''Miracle cure found'') (replicate 10001 0x61) fresh_page
        = (False, showError (js ''Article text must be less than 10,000 characters'') fresh_page)
   \<and> fst (validateInputs (replicate 500 0x61) (replicate 10000 0x61) fresh_page)
   \<and> fst (validateInputs (replicate 5 0x61) (replicate 20 0x61) fresh_page)
   \<and> in_flight (handleFormSubmit form_filled)
        = [\<lparr>request_title = js ''Miracle cure found'', request_text = example_text\<rparr>]"
proof -
  let ?w = "fresh_page\<lparr>newsTitle := padded_short_title, newsText := example_text\<rparr>"
  have a: "\<not> isAnalyzing ?w" by (simp add: fresh_page_def)
  have l: "length (trim padded_short_title) < 5" by (simp add: trim_padded_short_title)
  have f: "in_flight ?w = []" by (simp add: fresh_page_def)
  have g: "\<not> isAnalyzing form_filled" "in_flight form_filled = []"
    "trim (newsTitle form_filled) = js ''Miracle cure found''"
    "trim (newsText form_filled) = example_text"
    by (simp_all add: form_filled_eq fresh_page_def trim_example_title trim_example_text)
  have e: "length example_text = 47" by (simp add: example_text_def)
  note v1 = validation_rules [of "trim padded_short_title" "trim example_text" ?w]
  note v2 = validation_rules [of "replicate 501 0x61" "[]" fresh_page]
  note v3 = validation_rules [of "js ''Miracle cure found''" "js ''Too short.''" fresh_page]
  note v4 = validation_rules [of "js ''Miracle cure found''" "replicate 10001 0x61" fresh_page]
  note v5 = validation_rules [of "replicate 500 0x61" "replicate 10000 0x61" fresh_page]
  note v6 = validation_rules [of "replicate 5 0x61" "replicate 20 0x61" fresh_page]
  note v7 = validation_rules [of "js ''Miracle cure found''" example_text form_filled]
  have c1: "handleFormSubmit ?w = showError (js ''Title must be at least 5 characters long'') ?w"
    using v1 a l by simp
  show ?thesis
    using a l f v1 v2 v3 v4 v5 v6 v7 g e
    by (simp add: padded_short_title_def c1)
qed

section \<open>The presentation\<close>

text \<open>
  C6. From a loaded page and after any sequence of events, showResults, showError and
  resetToForm each leave no rotation running, and whenever the loading section is hidden
  no rotation is running.
\<close>

theorem rotation_cancelled:
  assumes "page_loaded w0"
  shows "rotation_timers (fst (showResults data (run w0 evs))) = []
       \<and> rotation_timers (showError msg (run w0 evs)) = []
       \<and> rotation_timers (resetToForm (run w0 evs)) = []
       \<and> (loadingState_hidden (run w0 evs) \<longrightarrow> rotation_timers (run w0 evs) = [])"
proof -
  have inv: "timer_inv (run w0 evs)"
    using page_loaded_inv [OF assms] by (simp add: run_inv)
  have "rotation_timers (run w0 evs) = []" if "loadingState_hidden (run w0 evs)"
    using inv that by (auto simp: timer_inv_def rotation_timers_def filter_empty_conv)
  with inv show ?thesis
    by (simp add: quiet_rotation_timers quiet_showResults quiet_showError quiet_resetToForm)
qed

theorem rotation_cancelled_witness:
  "page_loaded fresh_page
   \<and> \<not> loadingState_hidden (run fresh_page [EditTitle example_title, EditText example_text, Submit])
   \<and> rotation_timers (run fresh_page [EditTitle example_title, EditText example_text, Submit])
        = [(1, MessageInterval 0)]
   \<and> rotation_timers (fst (showResults (Some example_result)
        (run fresh_page [EditTitle example_title, EditText example_text, Submit]))) = []
   \<and> rotation_timers (showError (js ''Request timed out. The analysis is taking longer than expected.'')
        (run fresh_page [EditTitle example_title, EditText example_text, Submit])) = []
   \<and> rotation_timers (resetToForm
        (run fresh_page [EditTitle example_title, EditText example_text, Submit])) = []
   \<and> loadingState_hidden (run fresh_page [EditTitle example_title, EditText example_text, Submit,
        TransportSettles (answers example_result)])
   \<and> rotation_timers (run fresh_page [EditTitle example_title, EditText example_text, Submit,
        TransportSettles (answers example_result)]) = []"
proof -
  let ?evs = "[EditTitle example_title, EditText example_text, Submit]"
  have l: "\<not> loadingState_hidden (run fresh_page ?evs)"
    and r: "rotation_timers (run fresh_page ?evs) = [(1, MessageInterval 0)]"
    by (simp_all add: analysis_started_run analysis_started_eq rotation_timers_def)
  have s: "run fresh_page (?evs @ [TransportSettles (answers example_result)])
      = handleFormSubmit_settled (Success (Some example_result)) (analysis_started\<lparr>in_flight := []\<rparr>)"
    unfolding run_snoc analysis_started_run
    by (simp add: step_def analysis_started_eq detectFakeNews_answers)
  have h: "loadingState_hidden (run fresh_page (?evs @ [TransportSettles (answers example_result)]))"
    unfolding s by simp
  show ?thesis
    using rotation_cancelled [OF page_loaded_fresh_page, of _ ?evs]
      rotation_cancelled [OF page_loaded_fresh_page, of _ "?evs @ [TransportSettles (answers example_result)]"]
      l r h
    by (simp add: page_loaded_fresh_page)
qed

text \<open>
  C7, as stated, fails. After a first result the user picks the tab \<^verbatim>\<open>'fake'\<close>, returns
  to the form and analyses again; when the second result, whose only highlight is real,
  is shown, the tab is still \<^verbatim>\<open>'fake'\<close> and the freshly rendered item is hidden.
\<close>

theorem filter_survives_new_result:
  "currentTab second_analysis = js ''fake''
   \<and> currentTab second_analysis \<noteq> js ''all''
   \<and> currentResults second_analysis = Some one_real_result
   \<and> rendered_items (highlightsGrid second_analysis) = highlights_of one_real_result
   \<and> displays (highlightsGrid second_analysis) = [js ''none'']"
proof -
  have t: "currentTab ((step (updateCharCount ((resetToForm (filterHighlights (js ''fake'')
            (step analysis_started (TransportSettles (answers example_result)))))
              \<lparr>newsTitle := example_title, newsText := example_text\<rparr>)) Submit)
         \<lparr>in_flight := []\<rparr>) = js ''fake''"
    by (simp add: step_def handleFormSubmit_def validateInputs_def Let_def split: if_splits)
  show ?thesis
    unfolding second_analysis_eq
    by (simp add: grid_showResults_rendered t displays_rendered rendered_items_rendered
        highlights_of_one_real)
qed

text \<open>
  C7, amended. showResults leaves the current tab as it was, for a new result as for the
  same one, and each highlight item it renders is visible exactly when that tab is
  \<^verbatim>\<open>'all'\<close> or the item's direction.
\<close>

theorem showResults_keeps_filter:
  "currentTab (fst (showResults data w)) = currentTab w
   \<and> displays (highlightsGrid (fst (showResults (Some d) w))) =
       map (\<lambda>h. if currentTab w = js ''all'' \<or> currentTab w = direction_string (direction h)
                 then js ''flex'' else js ''none'') (highlights_of d)"
  by (simp add: grid_showResults_rendered displays_rendered)

theorem showResults_keeps_filter_witness:
  "currentTab (fst (showResults (Some one_real_result) (fresh_page\<lparr>currentTab := js ''fake''\<rparr>)))
     = js ''fake''
   \<and> displays (highlightsGrid (fst (showResults (Some one_real_result)
        (fresh_page\<lparr>currentTab := js ''fake''\<rparr>)))) = [js ''none'']
   \<and> displays (highlightsGrid (fst (showResults (Some example_result)
        (fresh_page\<lparr>currentTab := js ''fake''\<rparr>)))) = [js ''flex'', js ''none'', js ''flex'']"
  using showResults_keeps_filter [of "Some one_real_result" "fresh_page\<lparr>currentTab := js ''fake''\<rparr>" one_real_result]
    showResults_keeps_filter [of "Some example_result" "fresh_page\<lparr>currentTab := js ''fake''\<rparr>" example_result]
  by (simp add: highlights_of_one_real highlights_of_example)

text \<open>
  C8. Once a result has been rendered, and after any number of earlier tab clicks,
  filterHighlights shows exactly the items whose direction is the tab selected, and every
  item for \<^verbatim>\<open>'all'\<close>. The items of the grid stay the highlights of the result, in their
  order; the stored result is the same; no request is put in flight; nothing of the page
  changes but the current tab, the display of the items and the active tab button.
\<close>

theorem filterHighlights_toggles_visibility:
  assumes "w1 = run (fst (showResults (Some d) w)) (map ClickTab tabs)"
  shows "displays (highlightsGrid (filterHighlights tab w1)) =
           map (\<lambda>h. if tab = js ''all'' \<or> tab = direction_string (direction h)
                     then js ''flex'' else js ''none'') (highlights_of d)
       \<and> rendered_items (highlightsGrid (filterHighlights tab w1)) = highlights_of d
       \<and> rendered_items (highlightsGrid w1) = highlights_of d
       \<and> currentResults (filterHighlights tab w1) = Some d
       \<and> in_flight (filterHighlights tab w1) = in_flight w1
       \<and> filterHighlights tab w1 =
           w1\<lparr>currentTab := tab,
              highlightsGrid := highlightsGrid (filterHighlights tab w1),
              tab_btn := tab_btn (filterHighlights tab w1)\<rparr>"
proof -
  let ?v = "fst (showResults (Some d) w)"
  have "currentResults ?v = Some d" "highlightsGrid ?v = rendered (currentTab ?v) d"
    by (simp_all add: grid_showResults_rendered)
  from run_ClickTab [OF this, of tabs]
  have 1: "currentResults w1 = Some d"
    and 2: "highlightsGrid w1 = rendered (currentTab w1) d"
    and 3: "in_flight w1 = in_flight w"
    by (simp_all add: assms)
  have g: "highlightsGrid (filterHighlights tab w1) = rendered tab d"
    using 1 2 by (simp add: filterHighlights_def Let_def map_filter_item_rendered)
  have frame: "filterHighlights tab w1 =
           w1\<lparr>currentTab := tab,
              highlightsGrid := highlightsGrid (filterHighlights tab w1),
              tab_btn := tab_btn (filterHighlights tab w1)\<rparr>"
    using 1 by (simp add: filterHighlights_def Let_def)
  show ?thesis
    using 1 2 3 frame by (simp add: g displays_rendered rendered_items_rendered)
qed

theorem filterHighlights_toggles_visibility_witness:
  "displays (highlightsGrid (fst (showResults (Some example_result) fresh_page)))
     = [js ''flex'', js ''flex'', js ''flex'']
   \<and> displays (highlightsGrid (filterHighlights (js ''fake'')
        (run (fst (showResults (Some example_result) fresh_page)) (map ClickTab []))))
     = [js ''flex'', js ''none'', js ''flex'']
   \<and> displays (highlightsGrid (filterHighlights (js ''all'')
        (run (fst (showResults (Some example_result) fresh_page)) (map ClickTab [js ''fake'', js ''real'']))))
     = [js ''flex'', js ''flex'', js ''flex'']
   \<and> rendered_items (highlightsGrid (filterHighlights (js ''fake'')
        (run (fst (showResults (Some example_result) fresh_page)) (map ClickTab []))))
     = highlights_of example_result
   \<and> currentResults (filterHighlights (js ''fake'')
        (run (fst (showResults (Some example_result) fresh_page)) (map ClickTab [])))
     = Some example_result
   \<and> in_flight (filterHighlights (js ''fake'')
        (run (fst (showResults (Some example_result) fresh_page)) (map ClickTab []))) = []"
proof -
  have a: "displays (highlightsGrid (fst (showResults (Some example_result) fresh_page)))
     = [js ''flex'', js ''flex'', js ''flex'']"
    by (simp add: grid_showResults_rendered displays_rendered highlights_of_example)
       (simp add: fresh_page_def)
  have f: "in_flight (run (fst (showResults (Some example_result) fresh_page)) (map ClickTab [])) = []"
    by (simp add: run_def fresh_page_def)
  show ?thesis
    using a f
      filterHighlights_toggles_visibility [OF refl, of "js ''fake''" example_result fresh_page "[]"]
      filterHighlights_toggles_visibility [OF refl, of "js ''all''" example_result fresh_page
        "[js ''fake'', js ''real'']"]
    by (simp add: highlights_of_example)
qed

text \<open>
  C9. For a result whose list of highlights is empty (or missing), updateWordHighlights
  leaves the grid with the single placeholder "No word highlights available" and no
  highlight item, and so does showResults.
\<close>

theorem empty_highlights_placeholder:
  assumes "word_highlights d = Some [] \<or> word_highlights d = None"
  shows "updateWordHighlights (Some d) w = Inr (w\<lparr>highlightsGrid := [NoHighlights]\<rparr>)
       \<and> highlightsGrid (fst (showResults (Some d) w)) = [NoHighlights]
       \<and> rendered_items (highlightsGrid (fst (showResults (Some d) w))) = []"
proof -
  from assms have "highlights_of d = []"
    by (auto simp: highlights_of_def)
  then show ?thesis
    using assms
    by (auto simp: grid_showResults updateWordHighlights_def rendered_items_def)
qed

theorem empty_highlights_placeholder_witness:
  "word_highlights (example_result\<lparr>word_highlights := Some []\<rparr>) = Some []
   \<and> highlightsGrid (fst (showResults (Some (example_result\<lparr>word_highlights := Some []\<rparr>)) fresh_page))
       = [NoHighlights]
   \<and> length (highlightsGrid (fst (showResults (Some (example_result\<lparr>word_highlights := Some []\<rparr>)) fresh_page))) = 1"
proof -
  have a: "word_highlights (example_result\<lparr>word_highlights := Some []\<rparr>) = Some []
      \<or> word_highlights (example_result\<lparr>word_highlights := Some []\<rparr>) = None"
    by simp
  show ?thesis
    using empty_highlights_placeholder [OF a, of fresh_page] by simp
qed

text \<open>
  C10. While no result is stored, filterHighlights only records the tab: the items of
  the grid and the tab buttons are as before. The recorded tab then decides which items
  of the next result are visible when showResults renders them.
\<close>

theorem filter_before_first_result:
  assumes "currentResults w = None"
  shows "filterHighlights tab w = w\<lparr>currentTab := tab\<rparr>
       \<and> highlightsGrid (filterHighlights tab w) = highlightsGrid w
       \<and> tab_btn (filterHighlights tab w) = tab_btn w
       \<and> displays (highlightsGrid (fst (showResults (Some d) (filterHighlights tab w)))) =
           map (\<lambda>h. if tab = js ''all'' \<or> tab = direction_string (direction h)
                     then js ''flex'' else js ''none'') (highlights_of d)"
  using assms
  by (simp add: grid_showResults_rendered displays_rendered) (simp add: filterHighlights_def)

theorem filter_before_first_result_witness:
  "currentResults fresh_page = None
   \<and> filterHighlights (js ''real'') fresh_page = fresh_page\<lparr>currentTab := js ''real''\<rparr>
   \<and> tab_btn (filterHighlights (js ''real'') fresh_page)
        = [(js ''all'', True), (js ''fake'', False), (js ''real'', False)]
   \<and> displays (highlightsGrid (fst (showResults (Some example_result)
        (filterHighlights (js ''real'') fresh_page))))
        = [js ''none'', js ''flex'', js ''none'']"
proof -
  have a: "currentResults fresh_page = None" by (simp add: fresh_page_def)
  have b: "tab_btn fresh_page = [(js ''all'', True), (js ''fake'', False), (js ''real'', False)]"
    by (simp add: fresh_page_def)
  have d: "map (\<lambda>h. if js ''real'' = js ''all'' \<or> js ''real'' = direction_string (direction h)
                     then js ''flex'' else js ''none'') (highlights_of example_result)
      = [js ''none'', js ''flex'', js ''none'']"
    by (simp add: highlights_of_example)
  show ?thesis
    using a filter_before_first_result [OF a, of "js ''real''" example_result, unfolded d b]
    by blast
qed

end
